theory Spec2Isabelle
  imports Main "HOL-Library.Log_Nat" "HOL-Library.AList"
begin

section \<open>Python floats (IEEE-754 binary64)\<close>

text \<open>
  \<^verbatim>\<open>basic_bot.py\<close> computes with Python \<^verbatim>\<open>float\<close>: \<^verbatim>\<open>--quantity\<close> and
  \<^verbatim>\<open>--price\<close> are parsed with \<^verbatim>\<open>type=float\<close>, the exchange filters with
  \<^verbatim>\<open>float(...)\<close>.  A float is a finite binary64 value (kept as the rational number it
  denotes, \<open>Fin 0\<close> being the zero with the positive sign), the zero with the negative
  sign, an infinity or a NaN.
\<close>

datatype pyfloat = Fin rat | NZero | PInf | NInf | NaN

fun is_zero :: "pyfloat \<Rightarrow> bool" where
  "is_zero (Fin r) = (r = 0)"
| "is_zero NZero = True"
| "is_zero x = False"

fun is_inf :: "pyfloat \<Rightarrow> bool" where
  "is_inf PInf = True"
| "is_inf NInf = True"
| "is_inf x = False"

text \<open>The sign bit of a float that is no NaN.\<close>

fun signbit :: "pyfloat \<Rightarrow> bool" where
  "signbit (Fin r) = (r < 0)"
| "signbit NZero = True"
| "signbit NInf = True"
| "signbit x = False"

definition zero_of :: "bool \<Rightarrow> pyfloat" where
  "zero_of negative = (if negative then NZero else Fin 0)"

definition inf_of :: "bool \<Rightarrow> pyfloat" where
  "inf_of negative = (if negative then NInf else PInf)"

definition round_half_even :: "rat \<Rightarrow> int" where
  "round_half_even x =
     (let f = \<lfloor>x\<rfloor>; d = x - of_int f
      in if d < 1 / 2 then f else if 1 / 2 < d then f + 1 else if even f then f else f + 1)"

text \<open>\<open>ilog2 a\<close> is the binary exponent of a positive rational: \<open>2 powi ilog2 a \<le> a < 2 powi (ilog2 a + 1)\<close>.\<close>

definition ilog2 :: "rat \<Rightarrow> int" where
  "ilog2 a = (if 1 \<le> a then bitlen \<lfloor>a\<rfloor> - 1 else - bitlen (\<lceil>1 / a\<rceil> - 1))"

text \<open>
  Rounding of an exact result to binary64, to nearest with ties to even: 53 significant
  bits, the unit in the last place never below \<open>2 powi (- 1074)\<close> (subnormal numbers),
  overflow to an infinity when the rounded value reaches \<open>2 powi 1024\<close>, and underflow to
  the zero with the sign of the exact result.
\<close>

definition nearest_double :: "rat \<Rightarrow> pyfloat" where
  "nearest_double x =
     (if x = 0 then Fin 0
      else let a = \<bar>x\<bar>;
               q = max (ilog2 a - 52) (- 1074);
               y = of_int (round_half_even (a / 2 powi q)) * 2 powi q
           in if 2 powi 1024 \<le> y then (if 0 < x then PInf else NInf)
              else if 0 < x then Fin y
              else if y = 0 then NZero else Fin (- y))"

text \<open>
  \<^verbatim>\<open>a / b\<close> on floats once \<^verbatim>\<open>b\<close> is known not to be a zero.  The quotient of a zero
  or by an infinity is a zero, with the signs of the operands combined.
\<close>

fun ieee_div :: "pyfloat \<Rightarrow> pyfloat \<Rightarrow> pyfloat" where
  "ieee_div NaN b = NaN"
| "ieee_div a NaN = NaN"
| "ieee_div (Fin a) (Fin b) = (if a = 0 then zero_of (b < 0) else nearest_double (a / b))"
| "ieee_div a b =
     (if is_inf a then (if is_inf b then NaN else inf_of (signbit a \<noteq> signbit b))
      else zero_of (signbit a \<noteq> signbit b))"

text \<open>
  \<^verbatim>\<open>a * b\<close> on floats.  A product with a zero is a zero, with the signs of the operands
  combined, unless the other operand is an infinity.
\<close>

fun py_mul :: "pyfloat \<Rightarrow> pyfloat \<Rightarrow> pyfloat" where
  "py_mul NaN b = NaN"
| "py_mul a NaN = NaN"
| "py_mul (Fin a) (Fin b) =
     (if a = 0 \<or> b = 0 then zero_of ((a < 0) \<noteq> (b < 0)) else nearest_double (a * b))"
| "py_mul a b =
     (if is_inf a \<or> is_inf b
      then (if is_zero a \<or> is_zero b then NaN else inf_of (signbit a \<noteq> signbit b))
      else zero_of (signbit a \<noteq> signbit b))"

text \<open>
  \<^verbatim>\<open>a < b\<close> on floats: false as soon as one side is a NaN; the two zeros are equal.
\<close>

fun py_lt :: "pyfloat \<Rightarrow> pyfloat \<Rightarrow> bool" where
  "py_lt NaN b = False"
| "py_lt a NaN = False"
| "py_lt (Fin a) (Fin b) = (a < b)"
| "py_lt (Fin a) NZero = (a < 0)"
| "py_lt NZero (Fin b) = (0 < b)"
| "py_lt NZero NZero = False"
| "py_lt PInf b = False"
| "py_lt NInf NInf = False"
| "py_lt NInf b = True"
| "py_lt a PInf = True"
| "py_lt a NInf = False"

text \<open>\<^verbatim>\<open>not x\<close> on a float: true exactly for the zeros (a NaN is truthy).\<close>

definition float_falsy :: "pyfloat \<Rightarrow> bool" where
  "float_falsy x = is_zero x"

section \<open>JSON values and exceptions\<close>

text \<open>
  What \<^verbatim>\<open>resp.json()\<close> returns: a dict is kept as the list of its items, in their
  order, each key once.
\<close>

datatype json =
    JNull
  | JBool bool
  | JInt int
  | JFloat pyfloat
  | JStr string
  | JArr "json list"
  | JObj "(string \<times> json) list"

text \<open>
  The exceptions that can leave \<^verbatim>\<open>place_order\<close>.  The three \<^verbatim>\<open>ValueError\<close>s raised by
  the source itself are \<open>Rules_missing\<close> (line 86), \<open>Notional_below_minimum\<close> (line 97,
  with the two values its message prints) and \<open>Limit_requires_price\<close> (line 110); the
  others are raised by the interpreter and its library.
\<close>

datatype vmsg =
    Rules_missing
  | Notional_below_minimum pyfloat "pyfloat option"
  | Limit_requires_price
  | Could_not_convert_to_float string
  | Cannot_convert_NaN_to_integer

datatype error =
    RequestException string
  | StopIteration
  | KeyError string
  | TypeError string
  | AttributeError string
  | ZeroDivisionError
  | OverflowError string
  | ValueError vmsg

text \<open>Sequencing of steps that may raise: the first exception ends the computation.\<close>

definition and_then :: "error + 'a \<Rightarrow> ('a \<Rightarrow> error + 'b) \<Rightarrow> error + 'b" where
  "and_then r f = (case r of Inl e \<Rightarrow> Inl e | Inr x \<Rightarrow> f x)"

text \<open>\<^verbatim>\<open>math.floor(x)\<close> of a float: a Python int, or an exception for NaN and infinities.\<close>

fun math_floor :: "pyfloat \<Rightarrow> error + int" where
  "math_floor (Fin r) = Inr \<lfloor>r\<rfloor>"
| "math_floor NZero = Inr 0"
| "math_floor NaN = Inl (ValueError Cannot_convert_NaN_to_integer)"
| "math_floor x = Inl (OverflowError ''cannot convert float infinity to integer'')"

text \<open>
  The conversion of an int operand to float (in \<^verbatim>\<open>int * float\<close> and \<^verbatim>\<open>float(int)\<close>):
  Python raises where the rounding overflows.
\<close>

definition int_to_float :: "int \<Rightarrow> error + pyfloat" where
  "int_to_float k =
     (if is_inf (nearest_double (of_int k))
      then Inl (OverflowError ''int too large to convert to float'')
      else Inr (nearest_double (of_int k)))"

text \<open>\<^verbatim>\<open>a / b\<close> on floats: Python raises on a zero divisor before dividing.\<close>

definition py_truediv :: "pyfloat \<Rightarrow> pyfloat \<Rightarrow> error + pyfloat" where
  "py_truediv a b = (if is_zero b then Inl ZeroDivisionError else Inr (ieee_div a b))"

text \<open>
  Lines 89-90, the function local to \<^verbatim>\<open>place_order\<close>:
  \<^verbatim>\<open>def round_down(value, step): return math.floor(value / step) * step\<close>
\<close>

definition round_down :: "pyfloat \<Rightarrow> pyfloat \<Rightarrow> error + pyfloat" where
  "round_down v step =
     and_then (py_truediv v step) (\<lambda>d.
     and_then (math_floor d) (\<lambda>k.
     and_then (int_to_float k) (\<lambda>kf. Inr (py_mul kf step))))"

section \<open>Strings and dicts\<close>

text \<open>\<^verbatim>\<open>base_url.rstrip("/")\<close>\<close>

definition rstrip_slash :: "string \<Rightarrow> string" where
  "rstrip_slash s = rev (dropWhile (\<lambda>c. c = CHR ''/'') (rev s))"

text \<open>\<^verbatim>\<open>x[key]\<close> with a string key: only a dict that has the key answers.\<close>

fun getitem :: "json \<Rightarrow> string \<Rightarrow> error + json" where
  "getitem (JObj kvs) k = (case map_of kvs k of None \<Rightarrow> Inl (KeyError k) | Some v \<Rightarrow> Inr v)"
| "getitem (JArr xs) k = Inl (TypeError ''list indices must be integers or slices, not str'')"
| "getitem (JStr s) k = Inl (TypeError ''string indices must be integers, not str'')"
| "getitem x k = Inl (TypeError ''object is not subscriptable'')"

text \<open>\<^verbatim>\<open>x.get(key)\<close>: \<^verbatim>\<open>None\<close> for a dict without the key.\<close>

fun dict_get :: "json \<Rightarrow> string \<Rightarrow> error + json" where
  "dict_get (JObj kvs) k = (case map_of kvs k of None \<Rightarrow> Inr JNull | Some v \<Rightarrow> Inr v)"
| "dict_get x k = Inl (AttributeError ''object has no attribute get'')"

text \<open>
  What a \<^verbatim>\<open>for\<close> loop or a generator expression iterates over: the elements of a list,
  the keys of a dict, the characters of a string.
\<close>

fun py_iter :: "json \<Rightarrow> error + json list" where
  "py_iter (JArr xs) = Inr xs"
| "py_iter (JObj kvs) = Inr (map (\<lambda>kv. JStr (fst kv)) kvs)"
| "py_iter (JStr s) = Inr (map (\<lambda>c. JStr [c]) s)"
| "py_iter x = Inl (TypeError ''object is not iterable'')"

text \<open>Truth value of a JSON value, as \<^verbatim>\<open>or\<close> tests it.\<close>

fun truthy :: "json \<Rightarrow> bool" where
  "truthy JNull = False"
| "truthy (JBool b) = b"
| "truthy (JInt i) = (i \<noteq> 0)"
| "truthy (JFloat x) = (\<not> float_falsy x)"
| "truthy (JStr s) = (s \<noteq> [])"
| "truthy (JArr xs) = (xs \<noteq> [])"
| "truthy (JObj kvs) = (kvs \<noteq> [])"

definition py_or :: "json \<Rightarrow> json \<Rightarrow> json" where
  "py_or a b = (if truthy a then a else b)"

section \<open>Library functions taken as parameters\<close>

text \<open>
  The parser and the printer of floats (\<^verbatim>\<open>float(str)\<close>, \<^verbatim>\<open>str(float)\<close>),
  \<^verbatim>\<open>str.upper()\<close> and \<^verbatim>\<open>hmac.new(key, msg, hashlib.sha256).hexdigest()\<close> belong to
  Python and its library, not to this repository.  The model takes them as parameters, so
  that every theorem holds for whatever they compute.  \<open>float_of_str\<close> answers \<open>None\<close>
  where \<^verbatim>\<open>float\<close> raises \<^verbatim>\<open>ValueError\<close>.
\<close>

record pylib =
  float_of_str :: "string \<Rightarrow> pyfloat option"
  str_of_float :: "pyfloat \<Rightarrow> string"
  str_upper :: "string \<Rightarrow> string"
  hmac_sha256_hex :: "string \<Rightarrow> string \<Rightarrow> string"

text \<open>\<^verbatim>\<open>float(x)\<close> of a JSON value.\<close>

fun py_float :: "pylib \<Rightarrow> json \<Rightarrow> error + pyfloat" where
  "py_float L (JStr s) =
     (case float_of_str L s of
        None \<Rightarrow> Inl (ValueError (Could_not_convert_to_float s))
      | Some x \<Rightarrow> Inr x)"
| "py_float L (JInt i) = int_to_float i"
| "py_float L (JFloat x) = Inr x"
| "py_float L (JBool b) = Inr (Fin (if b then 1 else 0))"
| "py_float L x = Inl (TypeError ''float() argument must be a string or a real number'')"

section \<open>The client, the requests and the environment\<close>

record client =
  api_key :: string
  api_secret :: string
  base_url :: string
  recv_window :: int

definition BASE_URL :: string where
  "BASE_URL = ''https://testnet.binancefuture.com''"

text \<open>\<^verbatim>\<open>BinanceFuturesClient(api_key, api_secret)\<close> with the default base URL and window.\<close>

definition new_client :: "string \<Rightarrow> string \<Rightarrow> client" where
  "new_client key secret =
     \<lparr>api_key = key, api_secret = secret, base_url = rstrip_slash BASE_URL, recv_window = 5000\<rparr>"

text \<open>A value of the \<^verbatim>\<open>params\<close> dict: a string or an int.  The dict keeps insertion order.\<close>

datatype pval = PStr string | PInt int

type_synonym params = "(string \<times> pval) list"

datatype verb = GET | POST

record http_request =
  verb :: verb
  url :: string
  query :: "params option"
  api_key_header :: string

text \<open>
  The world outside the process: what the exchange answers to a request (\<open>Inl\<close> when
  \<^verbatim>\<open>requests\<close> raises, on a connection failure or an HTTP error status), and the clock.
\<close>

record env =
  http :: "http_request \<Rightarrow> string + json"
  clock_ms :: int

section \<open>Signing\<close>

text \<open>\<^verbatim>\<open>str(n)\<close> of an int.\<close>

fun str_nat :: "nat \<Rightarrow> string" where
  "str_nat n =
     (if n < 10 then [''0123456789'' ! n]
      else str_nat (n div 10) @ [''0123456789'' ! (n mod 10)])"

definition str_int :: "int \<Rightarrow> string" where
  "str_int i = (if i < 0 then CHR ''-'' # str_nat (nat (- i)) else str_nat (nat i))"

text \<open>
  \<^verbatim>\<open>urllib.parse.quote_plus\<close>: letters, digits and \<^verbatim>\<open>_.-~\<close> are kept, a space becomes
  \<^verbatim>\<open>+\<close>, every other byte becomes \<^verbatim>\<open>%XX\<close>.
\<close>

definition quote_plus_char :: "char \<Rightarrow> string" where
  "quote_plus_char c =
     (if c \<in> set ''ABCDEFGHIJKLMNOPQRSTUVWXYZabcdefghijklmnopqrstuvwxyz0123456789_.-~'' then [c]
      else if c = CHR '' '' then ''+''
      else [CHR ''%'', ''0123456789ABCDEF'' ! (of_char c div 16),
            ''0123456789ABCDEF'' ! (of_char c mod 16)])"

definition quote_plus :: "string \<Rightarrow> string" where
  "quote_plus s = concat (map quote_plus_char s)"

definition str_pval :: "pval \<Rightarrow> string" where
  "str_pval v = (case v of PStr s \<Rightarrow> s | PInt i \<Rightarrow> str_int i)"

fun join_amp :: "string list \<Rightarrow> string" where
  "join_amp [] = []"
| "join_amp [x] = x"
| "join_amp (x # y # ys) = x @ ''&'' @ join_amp (y # ys)"

text \<open>\<^verbatim>\<open>urlencode(params, doseq=True)\<close>: the items in the dict's order.\<close>

definition urlencode :: "params \<Rightarrow> string" where
  "urlencode ps = join_amp (map (\<lambda>(k, v). quote_plus k @ ''='' @ quote_plus (str_pval v)) ps)"

text \<open>Lines 51-53, \<^verbatim>\<open>_sign\<close>.\<close>

definition do_sign :: "pylib \<Rightarrow> client \<Rightarrow> params \<Rightarrow> string" where
  "do_sign L c ps = hmac_sha256_hex L (api_secret c) (urlencode ps)"

section \<open>Requests\<close>

text \<open>
  Lines 55-68, \<^verbatim>\<open>_request\<close>: a POST when the method is \<^verbatim>\<open>"POST"\<close>, a GET otherwise;
  an exception of \<^verbatim>\<open>requests\<close> is logged and raised again.  The result comes with the
  list of the requests that went out.
\<close>

definition do_request ::
  "env \<Rightarrow> client \<Rightarrow> string \<Rightarrow> string \<Rightarrow> params option \<Rightarrow> (error + json) \<times> http_request list" where
  "do_request E c method path ps =
     (let req = \<lparr>verb = (if method = ''POST'' then POST else GET), url = base_url c @ path,
                 query = ps, api_key_header = api_key c\<rparr>
      in (case http E req of Inl m \<Rightarrow> Inl (RequestException m) | Inr j \<Rightarrow> Inr j, [req]))"

text \<open>\<^verbatim>\<open>next(s for s in symbols if s["symbol"] == target)\<close>\<close>

fun next_symbol :: "json list \<Rightarrow> string \<Rightarrow> error + json" where
  "next_symbol [] target = Inl StopIteration"
| "next_symbol (s # ss) target =
     and_then (getitem s ''symbol'') (\<lambda>v. if v = JStr target then Inr s else next_symbol ss target)"

text \<open>Lines 70-72, \<^verbatim>\<open>get_symbol_info\<close>.\<close>

definition get_symbol_info ::
  "pylib \<Rightarrow> env \<Rightarrow> client \<Rightarrow> string \<Rightarrow> (error + json) \<times> http_request list" where
  "get_symbol_info L E c symbol =
     (let (r, sent) = do_request E c ''GET'' ''/fapi/v1/exchangeInfo'' None
      in (and_then r (\<lambda>info.
          and_then (getitem info ''symbols'') (\<lambda>syms.
          and_then (py_iter syms) (\<lambda>xs. next_symbol xs (str_upper L symbol)))), sent))"

section \<open>Placing an order\<close>

text \<open>
  Lines 76-83, the loop over the filters of the symbol; the three variables start as
  \<^verbatim>\<open>None\<close> and a later filter of a kind overwrites an earlier one.
\<close>

fun read_filters ::
  "pylib \<Rightarrow> json list \<Rightarrow> pyfloat option \<times> pyfloat option \<times> pyfloat option \<Rightarrow>
   error + (pyfloat option \<times> pyfloat option \<times> pyfloat option)" where
  "read_filters L [] acc = Inr acc"
| "read_filters L (f # fs) (step_size, tick_size, min_notional) =
     and_then (getitem f ''filterType'') (\<lambda>t.
       if t = JStr ''LOT_SIZE'' then
         and_then (getitem f ''stepSize'') (\<lambda>v.
         and_then (py_float L v) (\<lambda>x. read_filters L fs (Some x, tick_size, min_notional)))
       else if t = JStr ''PRICE_FILTER'' then
         and_then (getitem f ''tickSize'') (\<lambda>v.
         and_then (py_float L v) (\<lambda>x. read_filters L fs (step_size, Some x, min_notional)))
       else if t = JStr ''MIN_NOTIONAL'' then
         and_then (dict_get f ''minNotional'') (\<lambda>v.
         and_then (py_float L (py_or v (JInt 0))) (\<lambda>x. read_filters L fs (step_size, tick_size, Some x)))
       else read_filters L fs (step_size, tick_size, min_notional))"

text \<open>\<^verbatim>\<open>not step_size\<close>: the variable is still \<^verbatim>\<open>None\<close>, or it is zero.\<close>

definition missing :: "pyfloat option \<Rightarrow> bool" where
  "missing x = (case x of None \<Rightarrow> True | Some v \<Rightarrow> float_falsy v)"

text \<open>\<^verbatim>\<open>(min_notional or 0)\<close>\<close>

definition or_zero :: "pyfloat option \<Rightarrow> pyfloat" where
  "or_zero x = (case x of None \<Rightarrow> Fin 0 | Some v \<Rightarrow> if float_falsy v then Fin 0 else v)"

text \<open>
  Lines 92-94: the quantity is rounded with the step size, the price, when there is one,
  with the tick size.
\<close>

definition round_price :: "pyfloat option \<Rightarrow> pyfloat \<Rightarrow> error + pyfloat option" where
  "round_price price tick_size =
     (case price of
        None \<Rightarrow> Inr None
      | Some p \<Rightarrow> and_then (round_down p tick_size) (\<lambda>p'. Inr (Some p')))"

text \<open>
  Lines 96-97.  With a LIMIT order and no price, \<^verbatim>\<open>quantity * price\<close> multiplies a
  float by \<^verbatim>\<open>None\<close>, which raises \<^verbatim>\<open>TypeError\<close> (the quotes of its message are left out).
\<close>

definition check_notional ::
  "pylib \<Rightarrow> string \<Rightarrow> pyfloat \<Rightarrow> pyfloat option \<Rightarrow> pyfloat option \<Rightarrow> error + unit" where
  "check_notional L order_type quantity price min_notional =
     (if str_upper L order_type = ''LIMIT'' then
        (case price of
           None \<Rightarrow> Inl (TypeError ''unsupported operand type(s) for *: float and NoneType'')
         | Some p \<Rightarrow>
             if py_lt (py_mul quantity p) (or_zero min_notional)
             then Inl (ValueError (Notional_below_minimum (py_mul quantity p) min_notional))
             else Inr ())
      else Inr ())"

text \<open>Lines 99-111: the parameters of the order, before the signature.\<close>

definition order_params ::
  "pylib \<Rightarrow> env \<Rightarrow> client \<Rightarrow> string \<Rightarrow> string \<Rightarrow> string \<Rightarrow> pyfloat \<Rightarrow> pyfloat option \<Rightarrow> string \<Rightarrow>
   error + params" where
  "order_params L E c symbol side order_type quantity price time_in_force =
     (let ps = [(''symbol'', PStr (str_upper L symbol)),
                (''side'', PStr (str_upper L side)),
                (''type'', PStr (str_upper L order_type)),
                (''quantity'', PStr (str_of_float L quantity)),
                (''timestamp'', PInt (clock_ms E)),
                (''recvWindow'', PInt (recv_window c))]
      in if str_upper L order_type = ''LIMIT'' then
           (case price of
              None \<Rightarrow> Inl (ValueError Limit_requires_price)
            | Some p \<Rightarrow>
                Inr (AList.update ''timeInForce'' (PStr time_in_force)
                      (AList.update ''price'' (PStr (str_of_float L p)) ps)))
         else Inr ps)"

text \<open>Lines 76-83 as a whole: the three rules read from the symbol's entry.\<close>

definition symbol_rules ::
  "pylib \<Rightarrow> json \<Rightarrow> error + (pyfloat option \<times> pyfloat option \<times> pyfloat option)" where
  "symbol_rules L symbol_info =
     and_then (getitem symbol_info ''filters'') (\<lambda>fv.
     and_then (py_iter fv) (\<lambda>fs. read_filters L fs (None, None, None)))"

text \<open>Line 113: \<^verbatim>\<open>params["signature"] = self._sign(params)\<close>\<close>

definition add_signature :: "pylib \<Rightarrow> client \<Rightarrow> params \<Rightarrow> params" where
  "add_signature L c ps = AList.update ''signature'' (PStr (do_sign L c ps)) ps"

text \<open>
  Lines 76-113, everything \<^verbatim>\<open>place_order\<close> does between its two requests: from the
  symbol's entry to the signed parameters, or to the exception that ends the call.
\<close>

definition prepare_order ::
  "pylib \<Rightarrow> env \<Rightarrow> client \<Rightarrow> json \<Rightarrow> string \<Rightarrow> string \<Rightarrow> string \<Rightarrow> pyfloat \<Rightarrow> pyfloat option \<Rightarrow>
   string \<Rightarrow> error + params" where
  "prepare_order L E c symbol_info symbol side order_type quantity price time_in_force =
     and_then (symbol_rules L symbol_info) (\<lambda>(step_size, tick_size, min_notional).
       if missing step_size \<or> missing tick_size then Inl (ValueError Rules_missing)
       else
         and_then (round_down quantity (the step_size)) (\<lambda>quantity'.
         and_then (round_price price (the tick_size)) (\<lambda>price'.
         and_then (check_notional L order_type quantity' price' min_notional) (\<lambda>_.
         and_then (order_params L E c symbol side order_type quantity' price' time_in_force) (\<lambda>ps.
           Inr (add_signature L c ps))))))"

text \<open>Lines 74-114, \<^verbatim>\<open>place_order\<close>: its result and the requests it sent, in order.\<close>

definition place_order ::
  "pylib \<Rightarrow> env \<Rightarrow> client \<Rightarrow> string \<Rightarrow> string \<Rightarrow> string \<Rightarrow> pyfloat \<Rightarrow> pyfloat option \<Rightarrow> string \<Rightarrow>
   (error + json) \<times> http_request list" where
  "place_order L E c symbol side order_type quantity price time_in_force =
     (case get_symbol_info L E c symbol of
        (Inl e, sent) \<Rightarrow> (Inl e, sent)
      | (Inr symbol_info, sent) \<Rightarrow>
          (case prepare_order L E c symbol_info symbol side order_type quantity price time_in_force of
             Inl e \<Rightarrow> (Inl e, sent)
           | Inr ps \<Rightarrow>
               (let (r, sent') = do_request E c ''POST'' ''/fapi/v1/order'' (Some ps)
                in (r, sent @ sent'))))"

section \<open>The rounding of the spec\<close>

text \<open>
  What the spec says \<^verbatim>\<open>round_down\<close> returns, on exact numbers: \<open>floor(v / s) \<sqdot> s\<close>, for a
  positive \<open>s\<close> the greatest multiple of \<open>s\<close> that is not above \<open>v\<close>.  It is compared below
  with \<open>round_down\<close>, which computes in floats.
\<close>

definition spec_round_down :: "rat \<Rightarrow> rat \<Rightarrow> rat" where
  "spec_round_down v s = of_int \<lfloor>v / s\<rfloor> * s"

section \<open>The command line\<close>

text \<open>The parsed arguments (lines 116-126).\<close>

record cli_args =
  arg_api_key :: string
  arg_api_secret :: string
  arg_symbol :: string
  arg_side :: string
  arg_type :: string
  arg_quantity :: pyfloat
  arg_price :: "pyfloat option"
  arg_timeinforce :: string

text \<open>What \<^verbatim>\<open>main\<close> prints: \<^verbatim>\<open>json.dumps(order, indent=2)\<close> or \<^verbatim>\<open>f"Error: {e}"\<close>.\<close>

datatype printed = Json_dump json | Error_line error

record outcome =
  exit_code :: int
  stdout :: printed
  sent_requests :: "http_request list"

text \<open>
  Lines 128-146, \<^verbatim>\<open>main\<close> after \<^verbatim>\<open>parse_args\<close>: every exception of the model is an
  \<^verbatim>\<open>Exception\<close>, so the handler catches it and calls \<^verbatim>\<open>sys.exit(1)\<close>; returning from
  \<^verbatim>\<open>main\<close> ends the process with status 0.
\<close>

definition main :: "pylib \<Rightarrow> env \<Rightarrow> cli_args \<Rightarrow> outcome" where
  "main L E args =
     (let client = new_client (arg_api_key args) (arg_api_secret args);
          (r, sent) = place_order L E client (arg_symbol args) (arg_side args) (arg_type args)
                        (arg_quantity args) (arg_price args) (arg_timeinforce args)
      in case r of
           Inr order \<Rightarrow> \<lparr>exit_code = 0, stdout = Json_dump order, sent_requests = sent\<rparr>
         | Inl e \<Rightarrow> \<lparr>exit_code = 1, stdout = Error_line e, sent_requests = sent\<rparr>)"

section \<open>Example data\<close>

text \<open>
  An exchange, a library and a client for the examples below.  The exchange knows two
  symbols; the filters of \<^verbatim>\<open>BTCUSDT\<close> are a parameter.  The library stands in for
  Python's: it parses and prints the few numbers of the examples, it capitalises the ASCII
  letters, and its digest only brackets the key and the message.
\<close>

definition lot_size_filter :: json where
  "lot_size_filter = JObj [(''filterType'', JStr ''LOT_SIZE''), (''stepSize'', JStr ''0.5'')]"

definition price_filter :: json where
  "price_filter = JObj [(''filterType'', JStr ''PRICE_FILTER''), (''tickSize'', JStr ''0.25'')]"

definition min_notional_filter :: json where
  "min_notional_filter = JObj [(''filterType'', JStr ''MIN_NOTIONAL''), (''minNotional'', JStr ''15'')]"

definition demo_info :: "json list \<Rightarrow> json" where
  "demo_info fs =
     JObj [(''symbols'',
            JArr [JObj [(''symbol'', JStr ''ETHUSDT''), (''filters'', JArr [])],
                  JObj [(''symbol'', JStr ''BTCUSDT''), (''filters'', JArr fs)]])]"

definition demo_symbol :: "json list \<Rightarrow> json" where
  "demo_symbol fs = JObj [(''symbol'', JStr ''BTCUSDT''), (''filters'', JArr fs)]"

definition demo_env :: "json list \<Rightarrow> env" where
  "demo_env fs =
     \<lparr>http = (\<lambda>r. if verb r = GET then Inr (demo_info fs)
                   else Inr (JObj [(''orderId'', JInt 1), (''status'', JStr ''NEW'')])),
      clock_ms = 1700000000000\<rparr>"

text \<open>The capitals of the ASCII letters, for the example library.\<close>

definition ascii_upper_char :: "char \<Rightarrow> char" where
  "ascii_upper_char c =
     (case map_of (zip ''abcdefghijklmnopqrstuvwxyz'' ''ABCDEFGHIJKLMNOPQRSTUVWXYZ'') c of
        Some u \<Rightarrow> u
      | None \<Rightarrow> c)"

definition ascii_upper :: "string \<Rightarrow> string" where
  "ascii_upper s = map ascii_upper_char s"

definition demo_lib :: pylib where
  "demo_lib =
     \<lparr>float_of_str = map_of [(''0.5'', Fin (1 / 2)), (''0.25'', Fin (1 / 4)), (''15'', Fin 15)],
      str_of_float = (\<lambda>x. if x = Fin (5 / 2) then ''2.5'' else if x = Fin (21 / 4) then ''5.25''
                           else if x = Fin (41 / 4) then ''10.25''
                           else if x = Fin (- (1 / 2)) then ''-0.5''
                           else if x = Fin (- 40) then ''-40.0'' else ''nan''),
      str_upper = ascii_upper,
      hmac_sha256_hex = (\<lambda>key msg. ''<'' @ key @ ''|'' @ msg @ ''>'')\<rparr>"

definition demo_client :: client where
  "demo_client = new_client ''key'' ''secret''"

definition full_rules :: "json list" where
  "full_rules = [price_filter, lot_size_filter, min_notional_filter]"

text \<open>The request that submits an order with the parameters \<open>ps\<close>.\<close>

definition order_request :: "client \<Rightarrow> params \<Rightarrow> http_request" where
  "order_request c ps =
     \<lparr>verb = POST, url = base_url c @ ''/fapi/v1/order'', query = Some ps,
      api_key_header = api_key c\<rparr>"

text \<open>The one request \<^verbatim>\<open>get_symbol_info\<close> sends.\<close>

definition exchange_info_request :: "client \<Rightarrow> http_request" where
  "exchange_info_request c =
     \<lparr>verb = GET, url = base_url c @ ''/fapi/v1/exchangeInfo'', query = None,
      api_key_header = api_key c\<rparr>"

section \<open>The rounding to binary64\<close>

lemma floor_rat_numeral_div [simp]:
  "\<lfloor>numeral a / numeral b :: rat\<rfloor> = numeral a div numeral b"
  by (metis floor_divide_of_int_eq of_int_numeral)

lemma round_half_even_eqI:
  assumes "of_int m - 1 / 2 < x" "x < of_int m + 1 / 2"
  shows "round_half_even x = m"
proof -
  have "\<lfloor>x\<rfloor> = m \<or> \<lfloor>x\<rfloor> = m - 1" using assms by linarith
  then show ?thesis
  proof
    assume f: "\<lfloor>x\<rfloor> = m"
    then have "x - of_int m < 1 / 2" using assms by linarith
    with f show ?thesis by (simp add: round_half_even_def Let_def)
  next
    assume f: "\<lfloor>x\<rfloor> = m - 1"
    then have "1 / 2 < x - of_int (m - 1)" using assms by simp
    with f show ?thesis by (simp add: round_half_even_def Let_def)
  qed
qed

lemma round_half_even_of_int [simp]: "round_half_even (of_int m) = m"
  by (rule round_half_even_eqI) simp_all

lemma round_half_even_nonneg: "0 \<le> x \<Longrightarrow> 0 \<le> round_half_even x"
  by (simp add: round_half_even_def Let_def)

lemma ilog2_bounds_ge1:
  assumes "1 \<le> (a::rat)"
  shows "2 powi (bitlen \<lfloor>a\<rfloor> - 1) \<le> a \<and> a < 2 powi (bitlen \<lfloor>a\<rfloor>)"
proof -
  let ?n = "\<lfloor>a\<rfloor>"
  have n: "0 < ?n" using assms by simp
  from bitlen_bounds[OF n]
  have b1: "2 ^ nat (bitlen ?n - 1) \<le> ?n" and b2: "?n < 2 ^ nat (bitlen ?n)" by auto
  have bl: "1 \<le> bitlen ?n" using n by (simp add: bitlen_alt_def)
  have "(2::rat) powi (bitlen ?n - 1) = of_int (2 ^ nat (bitlen ?n - 1))"
    using bl by (simp add: power_int_def)
  also have "\<dots> \<le> of_int ?n" using b1 by (simp only: of_int_le_iff)
  also have "\<dots> \<le> a" by simp
  finally have 1: "2 powi (bitlen ?n - 1) \<le> a" .
  have "?n + 1 \<le> 2 ^ nat (bitlen ?n)" using b2 by simp
  then have "(of_int (?n + 1) :: rat) \<le> of_int (2 ^ nat (bitlen ?n))"
    by (simp only: of_int_le_iff)
  moreover have "a < of_int (?n + 1)" by linarith
  ultimately have "a < of_int (2 ^ nat (bitlen ?n))" by linarith
  also have "\<dots> = 2 powi (bitlen ?n)" using bl by (simp add: power_int_def)
  finally show ?thesis using 1 by simp
qed

lemma ilog2_bounds:
  assumes "0 < (a::rat)"
  shows "2 powi (ilog2 a) \<le> a \<and> a < 2 powi (ilog2 a + 1)"
proof (cases "1 \<le> a")
  case True
  then show ?thesis using ilog2_bounds_ge1[OF True] by (simp add: ilog2_def)
next
  case False
  let ?c = "\<lceil>1 / a\<rceil>"
  have inv: "1 < 1 / a" using False assms by simp
  have c2: "2 \<le> ?c" using inv by linarith
  have n: "0 < ?c - 1" using c2 by simp
  let ?b = "bitlen (?c - 1)"
  from bitlen_bounds[OF n]
  have b1: "2 ^ nat (?b - 1) \<le> ?c - 1" and b2: "?c - 1 < 2 ^ nat ?b" by auto
  have bl: "1 \<le> ?b" using n by (simp add: bitlen_alt_def)
  have "1 / a \<le> of_int ?c" by simp
  also have "(of_int ?c :: rat) \<le> of_int (2 ^ nat ?b)"
  proof -
    have "?c \<le> 2 ^ nat ?b" using b2 by simp
    then show ?thesis by (simp only: of_int_le_iff)
  qed
  also have "\<dots> = 2 powi ?b" using bl by (simp add: power_int_def)
  finally have u: "1 / a \<le> 2 powi ?b" .
  have "(2::rat) powi (?b - 1) = of_int (2 ^ nat (?b - 1))" using bl by (simp add: power_int_def)
  also have "\<dots> \<le> of_int (?c - 1)" using b1 by (simp only: of_int_le_iff)
  also have "\<dots> < 1 / a" by linarith
  finally have l: "2 powi (?b - 1) < 1 / a" .
  have p: "0 < (2::rat) powi ?b" "0 < (2::rat) powi (?b - 1)" by simp_all
  have 1: "2 powi (- ?b) \<le> a"
    using u assms p by (simp add: power_int_minus field_simps)
  have 2: "a < 2 powi (- ?b + 1)"
  proof -
    have "a < 1 / 2 powi (?b - 1)" using l assms p by (simp add: field_simps)
    also have "\<dots> = 2 powi (- (?b - 1))" by (simp only: power_int_minus_divide)
    finally show ?thesis by (simp add: algebra_simps)
  qed
  show ?thesis using False 1 2 by (simp add: ilog2_def)
qed

lemma powi2_mono: "a \<le> b \<Longrightarrow> (2::rat) powi a \<le> 2 powi b"
  by (rule power_int_increasing) simp_all

lemma ilog2_unique:
  assumes "0 < (a::rat)" "2 powi e \<le> a" "a < 2 powi (e + 1)"
  shows "ilog2 a = e"
proof (rule ccontr)
  assume ne: "ilog2 a \<noteq> e"
  from ilog2_bounds[OF assms(1)]
  have l: "2 powi (ilog2 a) \<le> a" and u: "a < 2 powi (ilog2 a + 1)" by auto
  show False
  proof (cases "ilog2 a < e")
    case True
    then have "(2::rat) powi (ilog2 a + 1) \<le> 2 powi e" by (intro powi2_mono) simp
    with u assms(2) show False by linarith
  next
    case False
    with ne have "e + 1 \<le> ilog2 a" by simp
    then have "(2::rat) powi (e + 1) \<le> 2 powi (ilog2 a)" by (intro powi2_mono)
    with l assms(3) show False by linarith
  qed
qed

text \<open>
  A rounding is checked from its exponent \<open>q\<close> and its significand \<open>m\<close>: the operand lies
  in the binade of \<open>q\<close>, and \<open>m\<close> is the integer nearest to the operand scaled by \<open>q\<close>.
\<close>

lemma nearest_double_normal:
  assumes "0 < a" "2 powi (q + 52) \<le> a" "a < 2 powi (q + 53)" "- 1074 \<le> q" "q \<le> 970"
    and "round_half_even (a / 2 powi q) = m"
  shows "nearest_double a = Fin (of_int m * 2 powi q)"
proof -
  have e: "ilog2 a = q + 52"
    using assms(1-3) by (intro ilog2_unique) (simp_all add: add.commute add.left_commute)
  have q: "max (ilog2 a - 52) (- 1074) = q" using e assms(4) by simp
  have r: "a / 2 powi q < 2 powi 53"
  proof -
    have "a < 2 powi 53 * 2 powi q" using assms(3) by (simp add: power_int_add add.commute)
    then show ?thesis by (simp add: field_simps)
  qed
  have "round_half_even (a / 2 powi q) \<le> \<lfloor>a / 2 powi q\<rfloor> + 1"
    by (simp add: round_half_even_def Let_def)
  moreover have "\<lfloor>a / 2 powi q\<rfloor> < (2 ^ 53 :: int)"
    unfolding floor_less_iff using r by simp
  ultimately have m: "m \<le> 2 ^ 53" unfolding assms(6) by linarith
  have "of_int m * (2::rat) powi q \<le> 2 powi 53 * 2 powi q"
    using m by (intro mult_right_mono) simp_all
  also have "\<dots> = 2 powi (q + 53)" by (simp add: power_int_add add.commute)
  also have "\<dots> \<le> 2 powi 1023" using assms(5) by (intro powi2_mono) simp
  also have "\<dots> < 2 powi 1024" by simp
  finally have y: "\<not> 2 powi 1024 \<le> of_int m * (2::rat) powi q" by simp
  show "nearest_double a = Fin (of_int m * 2 powi q)"
    using assms(1,6) q y by (simp add: nearest_double_def Let_def)
qed

lemma nearest_double_cert:
  assumes "0 < a" "2 powi (q + 52) \<le> a" "a < 2 powi (q + 53)" "- 1074 \<le> q" "q \<le> 970"
    and "of_int m - 1 / 2 < a / 2 powi q" "a / 2 powi q < of_int m + 1 / 2"
    and "r = of_int m * 2 powi q"
  shows "nearest_double a = Fin r"
  using nearest_double_normal[OF assms(1-5) round_half_even_eqI[OF assms(6,7)]] assms(8) by simp

text \<open>A number with at most 53 significant bits in range is its own rounding.\<close>

lemma nearest_double_exact:
  assumes x: "x = of_int m * 2 powi e" and m: "0 < m" "m < 2 ^ 53" and e: "- 1074 \<le> e" "e \<le> 970"
  shows "nearest_double x = Fin x"
proof -
  have p: "0 < (2::rat) powi k" for k by simp
  have xpos: "0 < x" using x m p by simp
  define E where "E = ilog2 x"
  from ilog2_bounds[OF xpos] have lo: "2 powi E \<le> x" and hi: "x < 2 powi (E + 1)"
    by (simp_all add: E_def)
  have "(of_int m :: rat) < 2 ^ 53" using m(2) by simp
  then have "x < 2 ^ 53 * 2 powi e" unfolding x using p[of e] by (simp add: mult_strict_right_mono)
  also have "\<dots> = 2 powi (e + 53)" by (simp add: power_int_add add.commute)
  finally have xu: "x < 2 powi (e + 53)" .
  have El: "E < e + 53"
  proof (rule ccontr)
    assume "\<not> E < e + 53"
    then have "(2::rat) powi (e + 53) \<le> 2 powi E" by (intro powi2_mono) simp
    with lo xu show False by linarith
  qed
  define q where "q = max (E - 52) (- 1074)"
  have qe: "q \<le> e" using El e by (simp add: q_def)
  have "x / 2 powi q = of_int m * (2 powi e / 2 powi q)" by (simp add: x)
  also have "2 powi e / (2::rat) powi q = 2 powi (e - q)" by (simp add: power_int_diff)
  also have "\<dots> = 2 ^ nat (e - q)" using qe by (simp add: power_int_def)
  finally have sc: "x / 2 powi q = of_int (m * 2 ^ nat (e - q))" by simp
  have r: "round_half_even (x / 2 powi q) = m * 2 ^ nat (e - q)"
    unfolding sc by (rule round_half_even_of_int)
  have y: "of_int (round_half_even (x / 2 powi q)) * 2 powi q = x"
  proof -
    have "of_int (round_half_even (x / 2 powi q)) * 2 powi q = x / 2 powi q * 2 powi q"
      by (simp only: r) (simp only: sc)
    then show ?thesis by simp
  qed
  have "x < 2 powi (e + 53)" by (rule xu)
  also have "\<dots> \<le> 2 powi 1023" using e by (intro powi2_mono) simp
  also have "\<dots> < 2 powi 1024" by simp
  finally have nov: "\<not> 2 powi 1024 \<le> x" by simp
  have ab: "\<bar>x\<bar> = x" using xpos by simp
  show ?thesis
    unfolding nearest_double_def Let_def ab E_def[symmetric] q_def[symmetric] y
    using xpos nov by simp
qed

lemma nearest_double_tie:
  assumes "0 < a" "2 powi (q + 52) \<le> a" "a < 2 powi (q + 53)" "- 1074 \<le> q" "q \<le> 970"
    and "round_half_even (a / 2 powi q) = m"
    and "r = of_int m * 2 powi q"
  shows "nearest_double a = Fin r"
  using nearest_double_normal[OF assms(1-6)] assms(7) by simp



section \<open>What \<^verbatim>\<open>place_order\<close> sends and returns\<close>

lemma get_symbol_info_sent: "snd (get_symbol_info L E c symbol) = [exchange_info_request c]"
  by (simp add: get_symbol_info_def do_request_def exchange_info_request_def Let_def)

lemma do_request_post:
  "do_request E c ''POST'' ''/fapi/v1/order'' (Some ps) =
     (case http E (order_request c ps) of Inl m \<Rightarrow> Inl (RequestException m) | Inr j \<Rightarrow> Inr j,
      [order_request c ps])"
  by (simp add: do_request_def order_request_def Let_def)

lemma post_not_ValueError:
  "fst (do_request E c method path ps) \<noteq> Inl (ValueError v)"
  by (simp add: do_request_def Let_def split: sum.splits)

lemma place_order_reached:
  assumes "get_symbol_info L E c symbol = (Inr info, sent)"
    and "symbol_rules L info = Inr (Some st, Some tk, mn)"
    and "\<not> float_falsy st" "\<not> float_falsy tk"
    and "round_down quantity st = Inr q'"
    and "round_price price tk = Inr p'"
  shows "place_order L E c symbol side order_type quantity price tif =
     (case check_notional L order_type q' p' mn of
        Inl e \<Rightarrow> (Inl e, sent)
      | Inr u \<Rightarrow>
          (case order_params L E c symbol side order_type q' p' tif of
             Inl e \<Rightarrow> (Inl e, sent)
           | Inr ps \<Rightarrow>
               (fst (do_request E c ''POST'' ''/fapi/v1/order'' (Some (add_signature L c ps))),
                sent @ [order_request c (add_signature L c ps)])))"
  using assms
  by (simp add: place_order_def prepare_order_def and_then_def missing_def do_request_post
      split: sum.splits prod.splits)

lemma place_order_rules_missing:
  assumes "get_symbol_info L E c symbol = (Inr info, sent)"
    and "symbol_rules L info = Inr (st, tk, mn)"
    and "missing st \<or> missing tk"
  shows "place_order L E c symbol side order_type quantity price tif =
           (Inl (ValueError Rules_missing), sent)"
  using assms by (auto simp add: place_order_def prepare_order_def and_then_def)

lemma place_order_rules_error:
  assumes "get_symbol_info L E c symbol = (Inr info, sent)"
    and "symbol_rules L info = Inl e"
  shows "place_order L E c symbol side order_type quantity price tif = (Inl e, sent)"
  using assms by (simp add: place_order_def prepare_order_def and_then_def)

lemma round_down_divisor: "round_down v s = Inr r \<Longrightarrow> \<not> float_falsy s"
  by (auto simp add: round_down_def py_truediv_def and_then_def float_falsy_def)

text \<open>
  A LIMIT order with a price, once the rules are read and both values are rounded: either
  the notional \<^verbatim>\<open>ValueError\<close> after the one GET, or the POST of the signed parameters.
\<close>

lemma place_order_limit:
  assumes "str_upper L order_type = ''LIMIT''"
    and "get_symbol_info L E c symbol = (Inr info, sent)"
    and "symbol_rules L info = Inr (Some st, Some tk, mn)"
    and "round_down quantity st = Inr q'"
    and "round_down p tk = Inr p'"
  shows "place_order L E c symbol side order_type quantity (Some p) tif =
     (if py_lt (py_mul q' p') (or_zero mn)
      then (Inl (ValueError (Notional_below_minimum (py_mul q' p') mn)), [exchange_info_request c])
      else (fst (do_request E c ''POST'' ''/fapi/v1/order'' (Some (add_signature L c
                  (AList.update ''timeInForce'' (PStr tif)
                    (AList.update ''price'' (PStr (str_of_float L p'))
                      [(''symbol'', PStr (str_upper L symbol)), (''side'', PStr (str_upper L side)),
                       (''type'', PStr (str_upper L order_type)), (''quantity'', PStr (str_of_float L q')),
                       (''timestamp'', PInt (clock_ms E)), (''recvWindow'', PInt (recv_window c))]))))),
            [exchange_info_request c, order_request c (add_signature L c
                  (AList.update ''timeInForce'' (PStr tif)
                    (AList.update ''price'' (PStr (str_of_float L p'))
                      [(''symbol'', PStr (str_upper L symbol)), (''side'', PStr (str_upper L side)),
                       (''type'', PStr (str_upper L order_type)), (''quantity'', PStr (str_of_float L q')),
                       (''timestamp'', PInt (clock_ms E)), (''recvWindow'', PInt (recv_window c))])))]))"
proof -
  have rp: "round_price (Some p) tk = Inr (Some p')"
    using assms(5) by (simp add: round_price_def and_then_def)
  have s: "sent = [exchange_info_request c]"
    using get_symbol_info_sent[of L E c symbol] assms(2) by simp
  show ?thesis
    unfolding place_order_reached[OF assms(2,3) round_down_divisor[OF assms(4)]
        round_down_divisor[OF assms(5)] assms(4) rp]
    using assms(1) s by (simp add: check_notional_def order_params_def)
qed

lemma read_filters_step_kept:
  assumes "\<forall>f\<in>set fs. getitem f ''filterType'' \<noteq> Inr (JStr ''LOT_SIZE'')"
    and "read_filters L fs (st0, tk0, mn0) = Inr (st, tk, mn)"
  shows "st = st0"
  using assms
  by (induction fs arbitrary: st0 tk0 mn0) (auto simp add: and_then_def split: sum.splits if_splits)

lemma read_filters_tick_kept:
  assumes "\<forall>f\<in>set fs. getitem f ''filterType'' \<noteq> Inr (JStr ''PRICE_FILTER'')"
    and "read_filters L fs (st0, tk0, mn0) = Inr (st, tk, mn)"
  shows "tk = tk0"
  using assms
  by (induction fs arbitrary: st0 tk0 mn0) (auto simp add: and_then_def split: sum.splits if_splits)

lemma order_params_market:
  assumes "str_upper L order_type \<noteq> ''LIMIT''"
  shows "order_params L E c symbol side order_type q p tif =
           Inr [(''symbol'', PStr (str_upper L symbol)), (''side'', PStr (str_upper L side)),
                (''type'', PStr (str_upper L order_type)), (''quantity'', PStr (str_of_float L q)),
                (''timestamp'', PInt (clock_ms E)), (''recvWindow'', PInt (recv_window c))]"
  using assms by (simp add: order_params_def)

lemma prepare_order_market:
  assumes "str_upper L order_type \<noteq> ''LIMIT''"
    and "prepare_order L E c info symbol side order_type quantity price tif = Inr ps"
  shows "prepare_order L E c info symbol side order_type quantity None tif = Inr ps \<and>
         map_of ps ''price'' = None \<and> map_of ps ''timeInForce'' = None"
  using assms
  by (auto simp add: prepare_order_def and_then_def check_notional_def order_params_market
      round_price_def add_signature_def update_conv' split: sum.splits if_splits option.splits)

lemma limit_without_price_TypeError:
  assumes "str_upper L order_type = ''LIMIT''"
    and "get_symbol_info L E c symbol = (Inr info, sent)"
    and "symbol_rules L info = Inr (Some st, Some tk, mn)"
    and "\<not> float_falsy st" "\<not> float_falsy tk"
    and "round_down quantity st = Inr q'"
  shows "place_order L E c symbol side order_type quantity None tif =
           (Inl (TypeError ''unsupported operand type(s) for *: float and NoneType''), sent)"
proof -
  have rp: "round_price None tk = Inr None" by (simp add: round_price_def)
  show ?thesis
    unfolding place_order_reached[OF assms(2-6) rp]
    using assms(1) by (simp add: check_notional_def)
qed

lemma market_without_price_submits:
  assumes "str_upper L order_type \<noteq> ''LIMIT''"
    and "get_symbol_info L E c symbol = (Inr info, sent)"
    and "symbol_rules L info = Inr (Some st, Some tk, mn)"
    and "\<not> float_falsy st" "\<not> float_falsy tk"
    and "round_down quantity st = Inr q'"
  shows "snd (place_order L E c symbol side order_type quantity None tif)
           = sent @ [order_request c (add_signature L c
               [(''symbol'', PStr (str_upper L symbol)), (''side'', PStr (str_upper L side)),
                (''type'', PStr (str_upper L order_type)), (''quantity'', PStr (str_of_float L q')),
                (''timestamp'', PInt (clock_ms E)), (''recvWindow'', PInt (recv_window c))])]"
proof -
  have rp: "round_price None tk = Inr None" by (simp add: round_price_def)
  show ?thesis
    unfolding place_order_reached[OF assms(2-6) rp]
    using assms(1) by (simp add: check_notional_def order_params_market)
qed

section \<open>Where the exceptions come from\<close>

lemma getitem_not_ValueError: "getitem j k \<noteq> Inl (ValueError v)"
  by (cases j) (simp_all split: option.splits)

lemma dict_get_not_ValueError: "dict_get j k \<noteq> Inl (ValueError v)"
  by (cases j) (simp_all split: option.splits)

lemma py_iter_not_ValueError: "py_iter j \<noteq> Inl (ValueError v)"
  by (cases j) simp_all

lemma int_to_float_not_ValueError: "int_to_float k \<noteq> Inl (ValueError v)"
  by (simp add: int_to_float_def split: pyfloat.splits)

lemma py_float_ValueError:
  "py_float L j = Inl (ValueError v) \<Longrightarrow> \<exists>s. v = Could_not_convert_to_float s"
  by (cases j) (auto simp add: int_to_float_not_ValueError split: option.splits)

lemma read_filters_ValueError:
  "read_filters L fs acc = Inl (ValueError v) \<Longrightarrow> \<exists>s. v = Could_not_convert_to_float s"
proof (induction fs arbitrary: acc)
  case Nil
  then show ?case by simp
next
  case (Cons f fs)
  obtain st tk mn where acc: "acc = (st, tk, mn)" by (cases acc)
  show ?case
    using Cons.prems Cons.IH unfolding acc
    by (auto simp add: and_then_def getitem_not_ValueError dict_get_not_ValueError
        dest: py_float_ValueError split: sum.splits if_splits)
qed

lemma symbol_rules_ValueError:
  "symbol_rules L info = Inl (ValueError v) \<Longrightarrow> \<exists>s. v = Could_not_convert_to_float s"
  by (auto simp add: symbol_rules_def and_then_def getitem_not_ValueError py_iter_not_ValueError
      dest: read_filters_ValueError split: sum.splits)

lemma next_symbol_not_ValueError: "next_symbol xs t \<noteq> Inl (ValueError v)"
  by (induction xs) (auto simp add: and_then_def getitem_not_ValueError split: sum.splits)

lemma get_symbol_info_not_ValueError: "fst (get_symbol_info L E c symbol) \<noteq> Inl (ValueError v)"
  by (auto simp add: get_symbol_info_def do_request_def and_then_def Let_def
      getitem_not_ValueError py_iter_not_ValueError next_symbol_not_ValueError split: sum.splits)

lemma round_down_ValueError:
  "round_down v s = Inl (ValueError m) \<Longrightarrow> m = Cannot_convert_NaN_to_integer"
  by (auto simp add: round_down_def and_then_def py_truediv_def int_to_float_not_ValueError
      split: sum.splits if_splits elim: math_floor.elims)

lemma round_price_ValueError:
  "round_price p t = Inl (ValueError m) \<Longrightarrow> m = Cannot_convert_NaN_to_integer"
  by (auto simp add: round_price_def and_then_def dest: round_down_ValueError
      split: option.splits sum.splits)

text \<open>
  A notional rejection has one origin, line 97; the exception of line 110 has none.
\<close>

lemma notional_rejection_origin:
  assumes "fst (place_order L E c symbol side order_type quantity price tif)
             = Inl (ValueError (Notional_below_minimum x y))"
  shows "\<exists>info sent st tk q' p p'.
           get_symbol_info L E c symbol = (Inr info, sent) \<and>
           symbol_rules L info = Inr (Some st, Some tk, y) \<and>
           round_down quantity st = Inr q' \<and> price = Some p \<and> round_down p tk = Inr p' \<and>
           str_upper L order_type = ''LIMIT'' \<and> x = py_mul q' p' \<and> py_lt x (or_zero y)"
proof -
  obtain res sent where g: "get_symbol_info L E c symbol = (res, sent)"
    by (cases "get_symbol_info L E c symbol")
  have "res \<noteq> Inl (ValueError (Notional_below_minimum x y))"
    using get_symbol_info_not_ValueError[of L E c symbol] g by simp
  with assms g obtain info where info: "res = Inr info"
    by (cases res) (simp_all add: place_order_def)
  have po: "fst (place_order L E c symbol side order_type quantity price tif) =
      (case prepare_order L E c info symbol side order_type quantity price tif of
         Inl e \<Rightarrow> Inl e
       | Inr ps \<Rightarrow> fst (do_request E c ''POST'' ''/fapi/v1/order'' (Some ps)))"
    using g info by (simp add: place_order_def split: sum.splits prod.splits)
  have pe: "prepare_order L E c info symbol side order_type quantity price tif
              = Inl (ValueError (Notional_below_minimum x y))"
    using assms po post_not_ValueError[of E c]
    by (cases "prepare_order L E c info symbol side order_type quantity price tif") simp_all
  obtain rs where rs: "symbol_rules L info = Inr rs"
    using pe symbol_rules_ValueError[of L info]
    by (cases "symbol_rules L info") (auto simp add: prepare_order_def and_then_def)
  obtain sto tko mn where rs3: "rs = (sto, tko, mn)" by (cases rs)
  from pe rs rs3 obtain st tk where st: "sto = Some st" "tko = Some tk"
    by (cases sto; cases tko) (auto simp add: prepare_order_def and_then_def missing_def)
  have nm: "\<not> missing (Some st)" "\<not> missing (Some tk)"
    using pe rs rs3 st by (auto simp add: prepare_order_def and_then_def split: if_splits)
  obtain q' where q': "round_down quantity st = Inr q'"
    using pe rs rs3 st nm round_down_ValueError[of quantity st]
    by (cases "round_down quantity st") (auto simp add: prepare_order_def and_then_def)
  obtain po' where p': "round_price price tk = Inr po'"
    using pe rs rs3 st nm q' round_price_ValueError[of price tk]
    by (cases "round_price price tk") (auto simp add: prepare_order_def and_then_def)
  have cn: "check_notional L order_type q' po' mn = Inl (ValueError (Notional_below_minimum x y))"
    using pe rs rs3 st nm q' p'
    by (auto simp add: prepare_order_def and_then_def order_params_def Let_def
        split: sum.splits if_splits option.splits)
  then obtain pr where pr: "po' = Some pr" "str_upper L order_type = ''LIMIT''"
      "x = py_mul q' pr" "y = mn" "py_lt x (or_zero y)"
    by (auto simp add: check_notional_def split: if_splits option.splits)
  from p' pr(1) obtain p where p: "price = Some p" "round_down p tk = Inr pr"
    by (auto simp add: round_price_def and_then_def split: option.splits sum.splits)
  show ?thesis
    using g info rs rs3 st q' p pr by auto
qed

lemma limit_requires_price_unreachable:
  "fst (place_order L E c symbol side order_type quantity price tif)
     \<noteq> Inl (ValueError Limit_requires_price)"
proof
  assume a: "fst (place_order L E c symbol side order_type quantity price tif)
     = Inl (ValueError Limit_requires_price)"
  obtain res sent where g: "get_symbol_info L E c symbol = (res, sent)"
    by (cases "get_symbol_info L E c symbol")
  have "res \<noteq> Inl (ValueError Limit_requires_price)"
    using get_symbol_info_not_ValueError[of L E c symbol] g by simp
  with a g obtain info where info: "res = Inr info"
    by (cases res) (simp_all add: place_order_def)
  have po: "fst (place_order L E c symbol side order_type quantity price tif) =
      (case prepare_order L E c info symbol side order_type quantity price tif of
         Inl e \<Rightarrow> Inl e
       | Inr ps \<Rightarrow> fst (do_request E c ''POST'' ''/fapi/v1/order'' (Some ps)))"
    using g info by (simp add: place_order_def split: sum.splits prod.splits)
  have pe: "prepare_order L E c info symbol side order_type quantity price tif
              = Inl (ValueError Limit_requires_price)"
    using a po post_not_ValueError[of E c]
    by (cases "prepare_order L E c info symbol side order_type quantity price tif") simp_all
  show False
    using pe
    by (auto simp add: prepare_order_def and_then_def check_notional_def order_params_def Let_def
        dest: symbol_rules_ValueError round_down_ValueError round_price_ValueError
        split: sum.splits if_splits option.splits)
qed

section \<open>Signs under rounding\<close>

lemma zero_of_sign [simp]:
  "\<not> py_lt (zero_of n) (Fin 0)" "\<not> py_lt (Fin 0) (zero_of n)"
  by (simp_all add: zero_of_def)

lemma nearest_double_unfold:
  obtains y where "0 \<le> y"
    and "nearest_double x =
          (if x = 0 then Fin 0
           else if 2 powi 1024 \<le> y then (if 0 < x then PInf else NInf)
           else if 0 < x then Fin y else if y = 0 then NZero else Fin (- y))"
proof -
  define q where "q = max (ilog2 \<bar>x\<bar> - 52) (- 1074)"
  define y where "y = (of_int (round_half_even (\<bar>x\<bar> / 2 powi q)) :: rat) * 2 powi q"
  have "0 \<le> \<bar>x\<bar> / 2 powi q" by simp
  then have "0 \<le> round_half_even (\<bar>x\<bar> / 2 powi q)" by (rule round_half_even_nonneg)
  then have y0: "0 \<le> y" by (simp add: y_def)
  have "nearest_double x =
          (if x = 0 then Fin 0
           else if 2 powi 1024 \<le> y then (if 0 < x then PInf else NInf)
           else if 0 < x then Fin y else if y = 0 then NZero else Fin (- y))"
    by (simp only: nearest_double_def Let_def y_def q_def)
  with y0 show ?thesis by (rule that)
qed

lemma nearest_double_nonneg: "0 \<le> x \<Longrightarrow> \<not> py_lt (nearest_double x) (Fin 0)"
  by (rule nearest_double_unfold[of x]) (simp add: not_less)

lemma nearest_double_nonpos: "x \<le> 0 \<Longrightarrow> \<not> py_lt (Fin 0) (nearest_double x)"
  by (rule nearest_double_unfold[of x]) (simp add: not_less)

lemma int_to_float_0: "int_to_float 0 = Inr (Fin 0)"
  by (simp add: int_to_float_def nearest_double_def)

text \<open>
  The signs through the four steps of \<^verbatim>\<open>round_down\<close>.  A float is not negative when it
  is not below 0, and not positive when 0 is not below it; a NaN is both.
\<close>

lemma ieee_div_sign:
  assumes "\<not> is_zero b"
  shows "\<not> py_lt a (Fin 0) \<Longrightarrow> \<not> py_lt b (Fin 0) \<Longrightarrow> \<not> py_lt (ieee_div a b) (Fin 0)"
    and "\<not> py_lt (Fin 0) a \<Longrightarrow> \<not> py_lt (Fin 0) b \<Longrightarrow> \<not> py_lt (ieee_div a b) (Fin 0)"
    and "\<not> py_lt a (Fin 0) \<Longrightarrow> \<not> py_lt (Fin 0) b \<Longrightarrow> \<not> py_lt (Fin 0) (ieee_div a b)"
    and "\<not> py_lt (Fin 0) a \<Longrightarrow> \<not> py_lt b (Fin 0) \<Longrightarrow> \<not> py_lt (Fin 0) (ieee_div a b)"
  using assms
  by (cases a; cases b;
      simp add: nearest_double_nonneg nearest_double_nonpos inf_of_def zero_of_def not_less
        zero_le_divide_iff divide_le_0_iff)+

lemma py_mul_sign:
  shows "\<not> py_lt a (Fin 0) \<Longrightarrow> \<not> py_lt b (Fin 0) \<Longrightarrow> \<not> py_lt (py_mul a b) (Fin 0)"
    and "\<not> py_lt (Fin 0) a \<Longrightarrow> \<not> py_lt (Fin 0) b \<Longrightarrow> \<not> py_lt (py_mul a b) (Fin 0)"
    and "\<not> py_lt a (Fin 0) \<Longrightarrow> \<not> py_lt (Fin 0) b \<Longrightarrow> \<not> py_lt (Fin 0) (py_mul a b)"
    and "\<not> py_lt (Fin 0) a \<Longrightarrow> \<not> py_lt b (Fin 0) \<Longrightarrow> \<not> py_lt (Fin 0) (py_mul a b)"
  by (cases a; cases b;
      simp add: nearest_double_nonneg nearest_double_nonpos inf_of_def zero_of_def not_less
        zero_le_mult_iff mult_le_0_iff)+

lemma py_mul_nonneg:
  assumes "\<not> py_lt a (Fin 0)" "\<not> py_lt b (Fin 0)"
  shows "\<not> py_lt (py_mul a b) (Fin 0)"
  using assms by (rule py_mul_sign(1))

lemma py_mul_nonpos_nonpos:
  assumes "\<not> py_lt (Fin 0) a" "\<not> py_lt (Fin 0) b"
  shows "\<not> py_lt (py_mul a b) (Fin 0)"
  using assms by (rule py_mul_sign(2))

lemma math_floor_sign:
  assumes "math_floor d = Inr k"
  shows "\<not> py_lt d (Fin 0) \<Longrightarrow> 0 \<le> k" and "\<not> py_lt (Fin 0) d \<Longrightarrow> k \<le> 0"
  using assms by (cases d; auto simp add: not_less floor_le_zero)+

lemma int_to_float_sign:
  assumes "int_to_float k = Inr kf"
  shows "0 \<le> k \<Longrightarrow> \<not> py_lt kf (Fin 0)" and "k \<le> 0 \<Longrightarrow> \<not> py_lt (Fin 0) kf"
proof -
  have kf: "kf = nearest_double (of_int k)"
    using assms by (simp add: int_to_float_def split: if_splits)
  show "0 \<le> k \<Longrightarrow> \<not> py_lt kf (Fin 0)" unfolding kf by (rule nearest_double_nonneg) simp
  show "k \<le> 0 \<Longrightarrow> \<not> py_lt (Fin 0) kf" unfolding kf by (rule nearest_double_nonpos) simp
qed

lemma py_lt_asym: "py_lt a b \<Longrightarrow> \<not> py_lt b a"
  by (cases a; cases b) simp_all

lemma round_down_steps:
  assumes "round_down v st = Inr r"
  obtains k kf where "\<not> is_zero st" "math_floor (ieee_div v st) = Inr k"
    "int_to_float k = Inr kf" "r = py_mul kf st"
proof -
  have z: "\<not> is_zero st"
    using assms by (auto simp add: round_down_def py_truediv_def and_then_def)
  then have rd: "and_then (math_floor (ieee_div v st))
           (\<lambda>k. and_then (int_to_float k) (\<lambda>kf. Inr (py_mul kf st))) = Inr r"
    using assms by (simp add: round_down_def py_truediv_def and_then_def)
  obtain k where k: "math_floor (ieee_div v st) = Inr k"
    using rd by (cases "math_floor (ieee_div v st)") (simp_all add: and_then_def)
  have rk: "and_then (int_to_float k) (\<lambda>kf. Inr (py_mul kf st)) = Inr r"
    using rd k by (simp add: and_then_def)
  obtain kf where kf: "int_to_float k = Inr kf"
    using rk by (cases "int_to_float k") (simp_all add: and_then_def)
  have "r = py_mul kf st"
    using rk kf by (simp add: and_then_def)
  with z k kf show ?thesis by (rule that)
qed

lemma round_down_sign_float:
  assumes "round_down v st = Inr r"
  shows "(\<not> py_lt v (Fin 0) \<longrightarrow> \<not> py_lt r (Fin 0)) \<and>
         (\<not> py_lt (Fin 0) v \<longrightarrow> \<not> py_lt (Fin 0) r)"
proof -
  from assms obtain k kf where z: "\<not> is_zero st"
    and k: "math_floor (ieee_div v st) = Inr k"
    and kf: "int_to_float k = Inr kf" and r: "r = py_mul kf st"
    by (rule round_down_steps)
  show ?thesis
  proof (cases "py_lt st (Fin 0)")
    case False
    show ?thesis
    proof (intro conjI impI)
      assume "\<not> py_lt v (Fin 0)"
      then have "\<not> py_lt (ieee_div v st) (Fin 0)" using False by (rule ieee_div_sign(1)[OF z])
      then have "0 \<le> k" by (rule math_floor_sign(1)[OF k])
      then have "\<not> py_lt kf (Fin 0)" by (rule int_to_float_sign(1)[OF kf])
      then show "\<not> py_lt r (Fin 0)" unfolding r using False by (rule py_mul_sign(1))
    next
      assume "\<not> py_lt (Fin 0) v"
      then have "\<not> py_lt (Fin 0) (ieee_div v st)" using False by (rule ieee_div_sign(4)[OF z])
      then have "k \<le> 0" by (rule math_floor_sign(2)[OF k])
      then have "\<not> py_lt (Fin 0) kf" by (rule int_to_float_sign(2)[OF kf])
      then show "\<not> py_lt (Fin 0) r" unfolding r using False by (rule py_mul_sign(4))
    qed
  next
    case True
    then have np: "\<not> py_lt (Fin 0) st" by (rule py_lt_asym)
    show ?thesis
    proof (intro conjI impI)
      assume "\<not> py_lt v (Fin 0)"
      then have "\<not> py_lt (Fin 0) (ieee_div v st)" using np by (rule ieee_div_sign(3)[OF z])
      then have "k \<le> 0" by (rule math_floor_sign(2)[OF k])
      then have "\<not> py_lt (Fin 0) kf" by (rule int_to_float_sign(2)[OF kf])
      then show "\<not> py_lt r (Fin 0)" unfolding r using np by (rule py_mul_sign(2))
    next
      assume "\<not> py_lt (Fin 0) v"
      then have "\<not> py_lt (ieee_div v st) (Fin 0)" using np by (rule ieee_div_sign(2)[OF z])
      then have "0 \<le> k" by (rule math_floor_sign(1)[OF k])
      then have "\<not> py_lt kf (Fin 0)" by (rule int_to_float_sign(1)[OF kf])
      then show "\<not> py_lt (Fin 0) r" unfolding r using np by (rule py_mul_sign(3))
    qed
  qed
qed


lemma read_filters_min_notional:
  assumes "\<forall>f\<in>set fs. getitem f ''filterType'' = Inr (JStr ''MIN_NOTIONAL'') \<longrightarrow>
                     dict_get f ''minNotional'' = Inr JNull"
    and "read_filters L fs (st0, tk0, mn0) = Inr (st, tk, mn)"
  shows "mn = mn0 \<or> mn = Some (Fin 0)"
  using assms
proof (induction fs arbitrary: st0 tk0 mn0)
  case Nil
  then show ?case by simp
next
  case (Cons f fs)
  from Cons.prems(1) have rest: "\<forall>f\<in>set fs. getitem f ''filterType'' = Inr (JStr ''MIN_NOTIONAL'') \<longrightarrow>
                     dict_get f ''minNotional'' = Inr JNull" by simp
  show ?case
    using Cons.prems Cons.IH[OF rest]
    by (auto simp add: and_then_def py_or_def int_to_float_0 split: sum.splits if_splits)
qed

lemma or_zero_absent: "mn = None \<or> mn = Some (Fin 0) \<Longrightarrow> or_zero mn = Fin 0"
  by (auto simp add: or_zero_def float_falsy_def)

section \<open>Rounding down, step by step\<close>

text \<open>
  \<^verbatim>\<open>round_down\<close> on finite floats that are not zero is three roundings: of the quotient,
  of its floor, and of the product.  Where none of them changes its operand and the step
  is positive, the result is the floor of the quotient times the step, it is not above the
  value, and rounding it again returns it.
\<close>

lemma round_down_exact:
  assumes "s \<noteq> 0" and "v \<noteq> 0"
    and "nearest_double (v / s) = Fin d"
    and "nearest_double (of_int \<lfloor>d\<rfloor>) = Fin kf" and "kf \<noteq> 0"
    and "nearest_double (kf * s) = r"
  shows "round_down (Fin v) (Fin s) = Inr r"
  using assms by (simp add: round_down_def py_truediv_def and_then_def int_to_float_def)

lemma round_down_without_rounding:
  assumes "0 < s"
    and "nearest_double (v / s) = Fin (v / s)"
    and "nearest_double (of_int \<lfloor>v / s\<rfloor>) = Fin (of_int \<lfloor>v / s\<rfloor>)"
    and "nearest_double (of_int \<lfloor>v / s\<rfloor> * s) = Fin (of_int \<lfloor>v / s\<rfloor> * s)"
  shows "round_down (Fin v) (Fin s) = Inr (Fin (spec_round_down v s))"
    and "round_down (Fin (spec_round_down v s)) (Fin s) = Inr (Fin (spec_round_down v s))"
    and "spec_round_down v s \<le> v"
proof -
  have m: "py_mul (Fin (of_int \<lfloor>v / s\<rfloor>)) (Fin s) = Fin (of_int \<lfloor>v / s\<rfloor> * s)"
    using assms(1,4) by (simp add: zero_of_def)
  have d: "ieee_div (Fin v) (Fin s) = Fin (v / s)"
    using assms(1,2) by (simp add: zero_of_def)
  show "round_down (Fin v) (Fin s) = Inr (Fin (spec_round_down v s))"
    using assms(1,3) m d
    by (simp add: round_down_def py_truediv_def and_then_def int_to_float_def spec_round_down_def)
  have d': "ieee_div (Fin (of_int \<lfloor>v / s\<rfloor> * s)) (Fin s) = Fin (of_int \<lfloor>v / s\<rfloor>)"
    using assms(1,3) by (simp add: zero_of_def)
  show "round_down (Fin (spec_round_down v s)) (Fin s) = Inr (Fin (spec_round_down v s))"
    using assms(1,3) m d'
    by (simp add: round_down_def py_truediv_def and_then_def int_to_float_def spec_round_down_def)
  have "of_int \<lfloor>v / s\<rfloor> \<le> v / s" by simp
  then have "of_int \<lfloor>v / s\<rfloor> * s \<le> v / s * s" using assms(1) by (intro mult_right_mono) simp_all
  then show "spec_round_down v s \<le> v" using assms(1) by (simp add: spec_round_down_def)
qed



text \<open>Rounding to binary64 is symmetric.\<close>

lemma nearest_double_minus:
  assumes "0 < x" and "nearest_double x = Fin y" and "y \<noteq> 0"
  shows "nearest_double (- x) = Fin (- y)"
  using assms by (auto simp add: nearest_double_def Let_def split: if_splits)

section \<open>Dicts as lists of items\<close>

text \<open>
  Two dicts with the same keys in the same order and the same value under every key are
  the same list of items.
\<close>

lemma same_items_same_order:
  assumes "distinct (map fst xs)" and "map fst xs = map fst ys" and "map_of xs = map_of ys"
  shows "xs = ys"
  using assms
proof (induction xs arbitrary: ys)
  case Nil
  then show ?case by simp
next
  case (Cons x xs)
  from Cons.prems(2) obtain y ys' where ys: "ys = y # ys'" by (cases ys) auto
  obtain k v where x: "x = (k, v)" by (cases x)
  obtain k' w where y: "y = (k', w)" by (cases y)
  from Cons.prems(2) ys x y have k: "k' = k" and keys: "map fst xs = map fst ys'" by simp_all
  from Cons.prems(3) have "map_of (x # xs) k = map_of ys k" by (rule fun_cong)
  then have v: "w = v" using ys x y k by simp
  from Cons.prems(1) x have nk: "k \<notin> fst ` set xs" and d: "distinct (map fst xs)" by simp_all
  have nk': "k \<notin> fst ` set ys'" using nk keys by (metis set_map)
  have "map_of xs z = map_of ys' z" for z
  proof (cases "z = k")
    case True
    have "map_of xs k = None" "map_of ys' k = None"
      using nk nk' by (simp_all add: map_of_eq_None_iff)
    with True show ?thesis by simp
  next
    case False
    from Cons.prems(3) have "map_of (x # xs) z = map_of ys z" by (rule fun_cong)
    then show ?thesis using False ys x y k by simp
  qed
  then have "map_of xs = map_of ys'" by (rule ext)
  from Cons.IH[OF d keys this] show ?case using ys x y k v by simp
qed

section \<open>The example exchange\<close>

lemma upper_limit: "str_upper demo_lib ''limit'' = ''LIMIT''"
  by (simp add: demo_lib_def ascii_upper_def ascii_upper_char_def)

lemma upper_market: "str_upper demo_lib ''market'' = ''MARKET''"
  by (simp add: demo_lib_def ascii_upper_def ascii_upper_char_def)

lemma demo_symbol_info:
  "get_symbol_info demo_lib (demo_env fs) demo_client ''btcusdt'' =
     (Inr (demo_symbol fs), [exchange_info_request demo_client])"
  by (simp add: get_symbol_info_def do_request_def demo_env_def demo_info_def demo_symbol_def
      exchange_info_request_def and_then_def demo_lib_def ascii_upper_def ascii_upper_char_def Let_def)

lemma demo_rules:
  "symbol_rules demo_lib (demo_symbol full_rules) =
     Inr (Some (Fin (1 / 2)), Some (Fin (1 / 4)), Some (Fin 15))"
  by (simp add: symbol_rules_def demo_symbol_def full_rules_def price_filter_def
      lot_size_filter_def min_notional_filter_def and_then_def demo_lib_def py_or_def)

lemma demo_quantity: "round_down (Fin (11 / 4)) (Fin (1 / 2)) = Inr (Fin (5 / 2))"
proof (rule round_down_exact[where d = "11 / 2" and kf = 5])
  show "nearest_double (11 / 4 / (1 / 2)) = Fin (11 / 2)"
    by (simp, rule nearest_double_exact[where m = 11 and e = "- 1"]) simp_all
  show "nearest_double (rat_of_int \<lfloor>11 / 2 :: rat\<rfloor>) = Fin 5"
    by (simp, rule nearest_double_exact[where m = 5 and e = 0]) simp_all
  show "nearest_double (5 * (1 / 2)) = Fin (5 / 2)"
    by (simp, rule nearest_double_exact[where m = 5 and e = "- 1"]) simp_all
qed simp_all


lemma demo_price_high: "round_down (Fin (41 / 4)) (Fin (1 / 4)) = Inr (Fin (41 / 4))"
proof (rule round_down_exact[where d = 41 and kf = 41])
  show "nearest_double (41 / 4 / (1 / 4)) = Fin 41"
    by (simp, rule nearest_double_exact[where m = 41 and e = 0]) simp_all
  show "nearest_double (rat_of_int \<lfloor>41 :: rat\<rfloor>) = Fin 41"
    by (simp, rule nearest_double_exact[where m = 41 and e = 0]) simp_all
  show "nearest_double (41 * (1 / 4)) = Fin (41 / 4)"
    by (simp, rule nearest_double_exact[where m = 41 and e = "- 2"]) simp_all
qed simp_all



lemma demo_market_params:
  "order_params demo_lib (demo_env fs) demo_client ''btcusdt'' ''buy'' ''market'' (Fin (5 / 2)) p ''GTC''
   = Inr [(''symbol'', PStr ''BTCUSDT''), (''side'', PStr ''BUY''), (''type'', PStr ''MARKET''),
          (''quantity'', PStr ''2.5''), (''timestamp'', PInt 1700000000000),
          (''recvWindow'', PInt 5000)]"
  by (simp add: order_params_def demo_lib_def ascii_upper_def ascii_upper_char_def demo_lib_def demo_env_def demo_client_def
      new_client_def)









text \<open>An order with a negative quantity and a negative price: both are rounded away from 0.\<close>

lemma float_minus_half: "nearest_double (- (1 / 2)) = Fin (- (1 / 2))"
proof -
  have "nearest_double (1 / 2) = Fin (1 / 2)"
    by (rule nearest_double_exact[where m = 1 and e = "- 1"]) simp_all
  then show ?thesis by (intro nearest_double_minus) simp_all
qed

lemma demo_quantity_negative: "round_down (Fin (- (1 / 4))) (Fin (1 / 2)) = Inr (Fin (- (1 / 2)))"
proof (rule round_down_exact[where d = "- (1 / 2)" and kf = "- 1"])
  show "nearest_double (- (1 / 4) / (1 / 2)) = Fin (- (1 / 2))"
    using float_minus_half by simp
  have "nearest_double 1 = Fin 1"
    by (rule nearest_double_exact[where m = 1 and e = 0]) simp_all
  then have "nearest_double (- 1) = Fin (- 1)" by (intro nearest_double_minus) simp_all
  moreover have "\<lfloor>- (1 / 2) :: rat\<rfloor> = - 1" by (simp add: floor_unique)
  ultimately show "nearest_double (rat_of_int \<lfloor>- (1 / 2) :: rat\<rfloor>) = Fin (- 1)" by simp
  show "nearest_double (- 1 * (1 / 2)) = Fin (- (1 / 2))"
    using float_minus_half by simp
qed simp_all

lemma demo_price_negative: "round_down (Fin (- 40)) (Fin (1 / 4)) = Inr (Fin (- 40))"
proof (rule round_down_exact[where d = "- 160" and kf = "- 160"])
  have "nearest_double 160 = Fin 160"
    by (rule nearest_double_exact[where m = 160 and e = 0]) simp_all
  then have a: "nearest_double (- 160) = Fin (- 160)" by (intro nearest_double_minus) simp_all
  then show "nearest_double (- 40 / (1 / 4)) = Fin (- 160)" by simp
  show "nearest_double (rat_of_int \<lfloor>- 160 :: rat\<rfloor>) = Fin (- 160)"
    using a by simp
  have "nearest_double 40 = Fin 40"
    by (rule nearest_double_exact[where m = 40 and e = 0]) simp_all
  then have "nearest_double (- 40) = Fin (- 40)" by (intro nearest_double_minus) simp_all
  then show "nearest_double (- 160 * (1 / 4)) = Fin (- 40)" by simp
qed simp_all

lemma demo_notional_negative: "nearest_double 20 = Fin 20"
  by (rule nearest_double_exact[where m = 20 and e = 0]) simp_all

text \<open>
  The floats of the decimal literals 0.1, 4.301, 4.3, 4.2, 0.001 and 0.009, and three
  roundings among them, each checked from its exponent and significand.
\<close>

lemma float_0_1: "nearest_double (1 / 10) = Fin (3602879701896397 / 36028797018963968)"
  by (rule nearest_double_cert[where q = "-56" and m = 7205759403792794]) simp_all

lemma float_4_301: "nearest_double (4301 / 1000) = Fin (2421247749665063 / 562949953421312)"
  by (rule nearest_double_cert[where q = "-50" and m = 4842495499330126]) simp_all

lemma float_4_3: "nearest_double (43 / 10) = Fin (4841369599423283 / 1125899906842624)"
  by (rule nearest_double_cert[where q = "-50" and m = 4841369599423283]) simp_all

lemma float_4_2: "nearest_double (42 / 10) = Fin (4728779608739021 / 1125899906842624)"
  by (rule nearest_double_cert[where q = "-50" and m = 4728779608739021]) simp_all

lemma round_down_4_301:
  "round_down (Fin (2421247749665063 / 562949953421312)) (Fin (3602879701896397 / 36028797018963968)) = Inr (Fin (4841369599423283 / 1125899906842624))"
proof (rule round_down_exact[where d = "6053119374162657 / 140737488355328" and kf = "43"])
  show "nearest_double (2421247749665063 / 562949953421312 / (3602879701896397 / 36028797018963968)) = Fin (6053119374162657 / 140737488355328)"
    by (rule nearest_double_cert[where q = "-47" and m = 6053119374162657]) simp_all
  show "nearest_double (rat_of_int \<lfloor>6053119374162657 / 140737488355328 :: rat\<rfloor>) = Fin 43"
    by (simp, rule nearest_double_exact[where m = 43 and e = 0]) simp_all
  show "nearest_double (43 * (3602879701896397 / 36028797018963968)) = Fin (4841369599423283 / 1125899906842624)"
    by (rule nearest_double_cert[where q = "-50" and m = 4841369599423283]) simp_all
qed simp_all

lemma round_down_4_3:
  "round_down (Fin (4841369599423283 / 1125899906842624)) (Fin (3602879701896397 / 36028797018963968)) = Inr (Fin (4728779608739021 / 1125899906842624))"
proof (rule round_down_exact[where d = "6051711999279103 / 140737488355328" and kf = "42"])
  show "nearest_double (4841369599423283 / 1125899906842624 / (3602879701896397 / 36028797018963968)) = Fin (6051711999279103 / 140737488355328)"
    by (rule nearest_double_cert[where q = "-47" and m = 6051711999279103]) simp_all
  show "nearest_double (rat_of_int \<lfloor>6051711999279103 / 140737488355328 :: rat\<rfloor>) = Fin 42"
    by (simp, rule nearest_double_exact[where m = 42 and e = 0]) simp_all
  show "nearest_double (42 * (3602879701896397 / 36028797018963968)) = Fin (4728779608739021 / 1125899906842624)"
    by (rule nearest_double_cert[where q = "-50" and m = 4728779608739021]) simp_all
qed simp_all

lemma float_0_001: "nearest_double (1 / 1000) = Fin (1152921504606847 / 1152921504606846976)"
  by (rule nearest_double_cert[where q = "-62" and m = 4611686018427388]) simp_all

lemma float_0_009: "nearest_double (9 / 1000) = Fin (5188146770730811 / 576460752303423488)"
  by (rule nearest_double_cert[where q = "-59" and m = 5188146770730811]) simp_all

lemma round_down_0_009:
  "round_down (Fin (5188146770730811 / 576460752303423488)) (Fin (1152921504606847 / 1152921504606846976)) = Inr (Fin (1297036692682703 / 144115188075855872))"
proof (rule round_down_exact[where d = "9" and kf = "9"])
  show "nearest_double (5188146770730811 / 576460752303423488 / (1152921504606847 / 1152921504606846976)) = Fin (9)"
    by (rule nearest_double_cert[where q = "-49" and m = 5066549580791808]) simp_all
  show "nearest_double (rat_of_int \<lfloor>9 :: rat\<rfloor>) = Fin 9"
    by (simp, rule nearest_double_exact[where m = 9 and e = 0]) simp_all
  show "nearest_double (9 * (1152921504606847 / 1152921504606846976)) = Fin (1297036692682703 / 144115188075855872)"
    by (rule nearest_double_tie[where q = "-59" and m = 5188146770730812]) (simp_all add: round_half_even_def Let_def)
qed simp_all

section \<open>C1: a notional rejection and the network\<close>




text \<open>
  The rejection and the requests, for every order: a call that ends with the notional
  \<^verbatim>\<open>ValueError\<close> has sent the GET of the rules and nothing else.
\<close>

lemma notional_rejection_sends_one_get:
  assumes "fst (place_order L E c symbol side order_type quantity price tif)
             = Inl (ValueError (Notional_below_minimum x y))"
  shows "snd (place_order L E c symbol side order_type quantity price tif)
           = [exchange_info_request c]"
proof -
  from notional_rejection_origin[OF assms]
  obtain info sent st tk q' p p' where g: "get_symbol_info L E c symbol = (Inr info, sent)"
    and r: "symbol_rules L info = Inr (Some st, Some tk, y)"
    and q': "round_down quantity st = Inr q'" and p: "price = Some p"
    and p': "round_down p tk = Inr p'" and u: "str_upper L order_type = ''LIMIT''"
    and lt: "py_lt (py_mul q' p') (or_zero y)"
    by auto
  show ?thesis
    unfolding p place_order_limit[OF u g r q' p'] using lt by simp
qed

text \<open>
  Why the quantity and the price of the theorem are not negative: \<^verbatim>\<open>math.floor\<close> rounds a
  negative value away from 0.  On the example exchange the order of -0.25 at -40 has the
  product 10, below 15; it is rounded to -0.5 at -40, with the product 20, and submitted.
\<close>

lemma negative_order_below_minimum_submitted:
  "(- (1 / 4) :: rat) * (- 40) < 15 \<and>
   snd (place_order demo_lib (demo_env full_rules) demo_client ''btcusdt'' ''sell'' ''limit''
          (Fin (- (1 / 4))) (Some (Fin (- 40))) ''GTC'')
   = [exchange_info_request demo_client,
      order_request demo_client
        (add_signature demo_lib demo_client
          [(''symbol'', PStr ''BTCUSDT''), (''side'', PStr ''SELL''), (''type'', PStr ''LIMIT''),
           (''quantity'', PStr ''-0.5''), (''timestamp'', PInt 1700000000000),
           (''recvWindow'', PInt 5000), (''price'', PStr ''-40.0''),
           (''timeInForce'', PStr ''GTC'')])]"
  unfolding place_order_limit[OF upper_limit demo_symbol_info demo_rules demo_quantity_negative
      demo_price_negative]
  by (simp add: demo_notional_negative or_zero_def float_falsy_def demo_lib_def ascii_upper_def ascii_upper_char_def
      demo_lib_def demo_env_def demo_client_def new_client_def)

section \<open>C2 and C3: rounding down in floats\<close>

text \<open>
  Claim C2, at the value 0.009 and the step 0.001.  The quotient of the two floats is
  below 9 (its floor is 8), but the float division rounds it to 9.0, and
  \<^verbatim>\<open>round_down\<close> returns 0.009000000000000001: not the greatest multiple of the step
  below the value, but a number above the value.
\<close>

theorem round_down_exceeds_value:
  "nearest_double (9 / 1000) = Fin (5188146770730811 / 576460752303423488) \<and>
   nearest_double (1 / 1000) = Fin (1152921504606847 / 1152921504606846976) \<and>
   round_down (nearest_double (9 / 1000)) (nearest_double (1 / 1000))
     = Inr (Fin (1297036692682703 / 144115188075855872)) \<and>
   (5188146770730811 / 576460752303423488 :: rat) < 1297036692682703 / 144115188075855872 \<and>
   \<lfloor>5188146770730811 / 576460752303423488 / (1152921504606847 / 1152921504606846976) :: rat\<rfloor> = 8"
  unfolding float_0_009 float_0_001
  by (intro conjI, rule refl, rule refl, rule round_down_0_009) simp_all

text \<open>
  Claim C3, at the value 4.301 and the step 0.1: \<^verbatim>\<open>round_down(4.301, 0.1)\<close> is 4.3,
  and \<^verbatim>\<open>round_down(4.3, 0.1)\<close> is 4.2, since 4.3 / 0.1 is 42.99999999999999 in floats.
  Rounding the rounded value changes it.
\<close>

theorem round_down_not_idempotent:
  "round_down (nearest_double (4301 / 1000)) (nearest_double (1 / 10)) = Inr (nearest_double (43 / 10)) \<and>
   round_down (nearest_double (43 / 10)) (nearest_double (1 / 10)) = Inr (nearest_double (42 / 10)) \<and>
   nearest_double (42 / 10) \<noteq> nearest_double (43 / 10)"
  unfolding float_4_301 float_0_1 float_4_3 float_4_2
  by (intro conjI, rule round_down_4_301, rule round_down_4_3) simp

section \<open>C4: the price of a LIMIT order\<close>

text \<open>
  Claim C4, at a LIMIT order without a price on the example exchange: the call does not
  end with \<open>Limit_requires_price\<close> (line 110) but with the \<^verbatim>\<open>TypeError\<close> of line 96,
  where \<^verbatim>\<open>quantity * price\<close> multiplies a float by \<^verbatim>\<open>None\<close>.
\<close>

theorem limit_order_without_price:
  "place_order demo_lib (demo_env full_rules) demo_client ''btcusdt'' ''buy'' ''limit''
     (Fin (11 / 4)) None ''GTC''
   = (Inl (TypeError ''unsupported operand type(s) for *: float and NoneType''),
      [exchange_info_request demo_client])"
proof -
  have rp: "round_price None (Fin (1 / 4)) = Inr None"
    by (simp add: round_price_def)
  show ?thesis
    unfolding place_order_reached[OF demo_symbol_info demo_rules _ _ demo_quantity rp,
        unfolded float_falsy_def, simplified]
    by (simp add: check_notional_def upper_limit)
qed

section \<open>C5: the notional check\<close>




section \<open>C6: missing rules\<close>

text \<open>
  Claim C6, amended.  The loop of lines 77-83 reads \<^verbatim>\<open>f["filterType"]\<close>,
  \<^verbatim>\<open>f["stepSize"]\<close> and \<^verbatim>\<open>f["tickSize"]\<close> and converts the values with \<^verbatim>\<open>float\<close>; a
  filter without its key, or with a value that is no number, raises there, before line 85.
  For every order: when the loop over the filters of the symbol comes to its end and the
  filters hold no \<^verbatim>\<open>LOT_SIZE\<close> filter, or no \<^verbatim>\<open>PRICE_FILTER\<close> filter, \<^verbatim>\<open>place_order\<close>
  fails with the \<^verbatim>\<open>ValueError\<close> of line 86, and the only request it has sent is the GET of
  the rules: the order is not submitted.
\<close>

theorem missing_rules_validation_error:
  assumes "get_symbol_info L E c symbol = (Inr info, sent)"
    and "getitem info ''filters'' = Inr fv" and "py_iter fv = Inr fs"
    and "read_filters L fs (None, None, None) = Inr rules"
    and "(\<forall>f\<in>set fs. getitem f ''filterType'' \<noteq> Inr (JStr ''LOT_SIZE'')) \<or>
         (\<forall>f\<in>set fs. getitem f ''filterType'' \<noteq> Inr (JStr ''PRICE_FILTER''))"
  shows "place_order L E c symbol side order_type quantity price tif
           = (Inl (ValueError Rules_missing), [exchange_info_request c])"
proof -
  have s: "sent = [exchange_info_request c]"
    using get_symbol_info_sent[of L E c symbol] assms(1) by simp
  obtain st tk mn where r: "rules = (st, tk, mn)" by (cases rules)
  have rf: "read_filters L fs (None, None, None) = Inr (st, tk, mn)" using assms(4) r by simp
  have sr: "symbol_rules L info = Inr (st, tk, mn)"
    using assms(2,3) rf by (simp add: symbol_rules_def and_then_def)
  have "st = None \<or> tk = None"
    using assms(5) read_filters_step_kept[OF _ rf] read_filters_tick_kept[OF _ rf] by blast
  then have m: "missing st \<or> missing tk" by (auto simp add: missing_def)
  from place_order_rules_missing[OF assms(1) sr m] s show ?thesis by simp
qed

text \<open>
  Witness of C6: the example exchange without its \<^verbatim>\<open>LOT_SIZE\<close> filter.
\<close>

theorem missing_rules_validation_error_witness:
  "getitem price_filter ''filterType'' \<noteq> Inr (JStr ''LOT_SIZE'') \<and>
   getitem min_notional_filter ''filterType'' \<noteq> Inr (JStr ''LOT_SIZE'') \<and>
   read_filters demo_lib [price_filter, min_notional_filter] (None, None, None)
     = Inr (None, Some (Fin (1 / 4)), Some (Fin 15)) \<and>
   place_order demo_lib (demo_env [price_filter, min_notional_filter]) demo_client ''btcusdt''
     ''buy'' ''market'' (Fin (11 / 4)) None ''GTC''
   = (Inl (ValueError Rules_missing), [exchange_info_request demo_client])"
proof -
  have a: "getitem (demo_symbol [price_filter, min_notional_filter]) ''filters''
             = Inr (JArr [price_filter, min_notional_filter])"
    by (simp add: demo_symbol_def)
  have b: "py_iter (JArr [price_filter, min_notional_filter]) = Inr [price_filter, min_notional_filter]"
    by simp
  have c: "read_filters demo_lib [price_filter, min_notional_filter] (None, None, None)
             = Inr (None, Some (Fin (1 / 4)), Some (Fin 15))"
    by (simp add: price_filter_def min_notional_filter_def and_then_def demo_lib_def py_or_def)
  have d: "\<forall>f\<in>set [price_filter, min_notional_filter]. getitem f ''filterType'' \<noteq> Inr (JStr ''LOT_SIZE'')"
    by (simp add: price_filter_def min_notional_filter_def)
  from missing_rules_validation_error[OF demo_symbol_info a b c disjI1[OF d], of "''buy''"
      "''market''" "Fin (11 / 4)" None "''GTC''"] c d
  show ?thesis by simp
qed

text \<open>
  Counterexample to C6 as stated: the rules of the example exchange with a \<^verbatim>\<open>LOT_SIZE\<close>
  filter that has no \<^verbatim>\<open>stepSize\<close>.  The rules provide no step size, and the call fails at
  line 79 with \<^verbatim>\<open>KeyError\<close>, not with the \<^verbatim>\<open>ValueError\<close> of line 86.
\<close>

theorem step_size_missing_key_error:
  "map_of [(''filterType'', JStr ''LOT_SIZE'')] ''stepSize'' = None \<and>
   place_order demo_lib
     (demo_env [price_filter, JObj [(''filterType'', JStr ''LOT_SIZE'')], min_notional_filter])
     demo_client ''btcusdt'' ''buy'' ''market'' (Fin (11 / 4)) None ''GTC''
   = (Inl (KeyError ''stepSize''), [exchange_info_request demo_client])"
proof -
  have "symbol_rules demo_lib
          (demo_symbol [price_filter, JObj [(''filterType'', JStr ''LOT_SIZE'')], min_notional_filter])
        = Inl (KeyError ''stepSize'')"
    by (simp add: symbol_rules_def demo_symbol_def price_filter_def and_then_def demo_lib_def)
  from place_order_rules_error[OF demo_symbol_info this] show ?thesis by simp
qed

text \<open>
  Whatever the filters raise, an order on a symbol without a \<^verbatim>\<open>LOT_SIZE\<close> filter, or
  without a \<^verbatim>\<open>PRICE_FILTER\<close> filter, is never submitted.
\<close>

lemma missing_rules_not_submitted:
  assumes "get_symbol_info L E c symbol = (Inr info, sent)"
    and "getitem info ''filters'' = Inr fv" and "py_iter fv = Inr fs"
    and "(\<forall>f\<in>set fs. getitem f ''filterType'' \<noteq> Inr (JStr ''LOT_SIZE'')) \<or>
         (\<forall>f\<in>set fs. getitem f ''filterType'' \<noteq> Inr (JStr ''PRICE_FILTER''))"
  shows "(\<exists>e. fst (place_order L E c symbol side order_type quantity price tif) = Inl e) \<and>
         snd (place_order L E c symbol side order_type quantity price tif)
           = [exchange_info_request c]"
proof -
  have s: "sent = [exchange_info_request c]"
    using get_symbol_info_sent[of L E c symbol] assms(1) by simp
  have sr: "symbol_rules L info = read_filters L fs (None, None, None)"
    using assms(2,3) by (simp add: symbol_rules_def and_then_def)
  show ?thesis
  proof (cases "read_filters L fs (None, None, None)")
    case (Inl e)
    from place_order_rules_error[OF assms(1) sr[unfolded Inl]] s show ?thesis by simp
  next
    case (Inr rules)
    obtain st tk mn where r: "rules = (st, tk, mn)" by (cases rules)
    have rf: "read_filters L fs (None, None, None) = Inr (st, tk, mn)" using Inr r by simp
    have "st = None \<or> tk = None"
      using assms(4) read_filters_step_kept[OF _ rf] read_filters_tick_kept[OF _ rf] by blast
    then have m: "missing st \<or> missing tk" by (auto simp add: missing_def)
    from place_order_rules_missing[OF assms(1) sr[unfolded rf] m] s show ?thesis by simp
  qed
qed

section \<open>C7: the signature\<close>

text \<open>
  Claim C7, amended.  \<^verbatim>\<open>_sign\<close> signs the query string that \<^verbatim>\<open>urlencode\<close> writes from
  the items of the dict in their insertion order, without sorting the keys.  Two calls of
  \<^verbatim>\<open>_sign\<close> with the same secret and with parameter dicts that are equal as maps and hold
  their keys in the same order return the same string, whatever else differs between the
  two clients: the digest, under that secret, of the one query string of the two dicts.
\<close>

theorem sign_deterministic_in_order:
  assumes "api_secret c1 = api_secret c2"
    and "map_of ps1 = map_of ps2"
    and "distinct (map fst ps1)"
    and "map fst ps1 = map fst ps2"
  shows "do_sign L c1 ps1 = do_sign L c2 ps2 \<and>
         do_sign L c1 ps1 = hmac_sha256_hex L (api_secret c2) (urlencode ps2)"
proof -
  have "ps1 = ps2" using assms(3,4,2) by (rule same_items_same_order)
  with assms(1) show ?thesis by (simp add: do_sign_def)
qed

text \<open>
  Witness of C7: two clients with different API keys and the same secret, and what they
  sign with the digest of the example library.
\<close>

theorem sign_deterministic_in_order_witness:
  "api_secret (new_client ''key'' ''secret'') = api_secret (new_client ''other key'' ''secret'') \<and>
   distinct (map fst [(''symbol'', PStr ''BTCUSDT''), (''side'', PStr ''BUY'')]) \<and>
   do_sign demo_lib (new_client ''key'' ''secret'')
     [(''symbol'', PStr ''BTCUSDT''), (''side'', PStr ''BUY'')]
   = do_sign demo_lib (new_client ''other key'' ''secret'')
     [(''symbol'', PStr ''BTCUSDT''), (''side'', PStr ''BUY'')] \<and>
   do_sign demo_lib (new_client ''other key'' ''secret'')
     [(''symbol'', PStr ''BTCUSDT''), (''side'', PStr ''BUY'')]
   = ''<secret|symbol=BTCUSDT&side=BUY>''"
  using sign_deterministic_in_order[of "new_client ''key'' ''secret''"
      "new_client ''other key'' ''secret''"
      "[(''symbol'', PStr ''BTCUSDT''), (''side'', PStr ''BUY'')]"
      "[(''symbol'', PStr ''BTCUSDT''), (''side'', PStr ''BUY'')]" demo_lib]
  by (simp add: new_client_def do_sign_def demo_lib_def urlencode_def quote_plus_def
      quote_plus_char_def str_pval_def)

text \<open>
  Counterexample to C7 as stated: two parameter dicts that are equal as maps, filled in
  two orders.  \<^verbatim>\<open>_sign\<close> signs two different query strings, and with the same secret the
  two signatures differ.
\<close>

theorem signature_depends_on_insertion_order:
  "map_of [(''symbol'', PStr ''BTCUSDT''), (''side'', PStr ''BUY'')]
     = map_of [(''side'', PStr ''BUY''), (''symbol'', PStr ''BTCUSDT'')] \<and>
   urlencode [(''symbol'', PStr ''BTCUSDT''), (''side'', PStr ''BUY'')] = ''symbol=BTCUSDT&side=BUY'' \<and>
   urlencode [(''side'', PStr ''BUY''), (''symbol'', PStr ''BTCUSDT'')] = ''side=BUY&symbol=BTCUSDT'' \<and>
   do_sign demo_lib demo_client [(''symbol'', PStr ''BTCUSDT''), (''side'', PStr ''BUY'')]
     \<noteq> do_sign demo_lib demo_client [(''side'', PStr ''BUY''), (''symbol'', PStr ''BTCUSDT'')]"
proof -
  have "map_of [(''symbol'', PStr ''BTCUSDT''), (''side'', PStr ''BUY'')] k
     = map_of [(''side'', PStr ''BUY''), (''symbol'', PStr ''BTCUSDT'')] k" for k
    by simp
  then have "map_of [(''symbol'', PStr ''BTCUSDT''), (''side'', PStr ''BUY'')]
     = map_of [(''side'', PStr ''BUY''), (''symbol'', PStr ''BTCUSDT'')]" by (rule ext)
  then show ?thesis
    by (simp add: do_sign_def demo_lib_def demo_client_def new_client_def urlencode_def
        quote_plus_def quote_plus_char_def str_pval_def)
qed

section \<open>C8: the exit code\<close>

text \<open>
  Claim C8.  When \<^verbatim>\<open>place_order\<close> returns an order, \<^verbatim>\<open>main\<close> prints it as JSON and the
  exit code is 0; when it raises, \<^verbatim>\<open>main\<close> prints the error and the exit code is 1.
\<close>

theorem main_exit_code:
  "(case fst (place_order L E (new_client (arg_api_key args) (arg_api_secret args))
               (arg_symbol args) (arg_side args) (arg_type args) (arg_quantity args)
               (arg_price args) (arg_timeinforce args)) of
      Inr order \<Rightarrow> exit_code (main L E args) = 0 \<and> stdout (main L E args) = Json_dump order
    | Inl e \<Rightarrow> exit_code (main L E args) = 1 \<and> stdout (main L E args) = Error_line e)"
  by (simp add: main_def Let_def split: prod.splits sum.splits)

section \<open>C9: no minimum notional\<close>



text \<open>
  The same for every float: a quantity and a price of which neither is below 0, or neither
  is above 0, the zero with the negative sign, the infinities and the NaN among them.
\<close>

lemma no_min_notional_no_rejection_floats:
  assumes "get_symbol_info L E c symbol = (Inr info, sent)"
    and "getitem info ''filters'' = Inr fv" and "py_iter fv = Inr fs"
    and "\<forall>f\<in>set fs. getitem f ''filterType'' = Inr (JStr ''MIN_NOTIONAL'') \<longrightarrow>
                     dict_get f ''minNotional'' = Inr JNull"
    and "(\<not> py_lt quantity (Fin 0) \<and> \<not> py_lt p (Fin 0)) \<or>
         (\<not> py_lt (Fin 0) quantity \<and> \<not> py_lt (Fin 0) p)"
  shows "\<nexists>x y. fst (place_order L E c symbol side order_type quantity (Some p) tif)
                  = Inl (ValueError (Notional_below_minimum x y))"
proof -
  have "False" if "fst (place_order L E c symbol side order_type quantity (Some p) tif)
                  = Inl (ValueError (Notional_below_minimum x y))" for x y
  proof -
    from notional_rejection_origin[OF that] assms(1)
    obtain st tk q' p' where r: "symbol_rules L info = Inr (Some st, Some tk, y)"
      and q': "round_down quantity st = Inr q'" and p': "round_down p tk = Inr p'"
      and x: "x = py_mul q' p'" and lt: "py_lt x (or_zero y)"
      by auto
    have "read_filters L fs (None, None, None) = Inr (Some st, Some tk, y)"
      using r assms(2,3) by (simp add: symbol_rules_def and_then_def)
    from read_filters_min_notional[OF assms(4) this] have "or_zero y = Fin 0"
      by (rule or_zero_absent)
    then have lt0: "py_lt (py_mul q' p') (Fin 0)" using lt x by simp
    have "\<not> py_lt (py_mul q' p') (Fin 0)"
      using assms(5) round_down_sign_float[OF q'] round_down_sign_float[OF p']
        py_mul_nonneg py_mul_nonpos_nonpos
      by blast
    with lt0 show False by simp
  qed
  then show ?thesis by blast
qed

section \<open>C10: the price of a MARKET order\<close>

text \<open>
  Claim C10.  For every MARKET order: a POST sent by \<^verbatim>\<open>place_order\<close> carries signed
  parameters without \<^verbatim>\<open>price\<close> and without \<^verbatim>\<open>timeInForce\<close>, and the whole call, its
  result and its requests, is the call without a price.
\<close>

theorem market_order_ignores_price:
  assumes "str_upper L order_type = ''MARKET''"
    and "r \<in> set (snd (place_order L E c symbol side order_type quantity price tif))"
    and "verb r = POST"
  shows "(\<exists>ps. query r = Some ps \<and> map_of ps ''price'' = None \<and> map_of ps ''timeInForce'' = None) \<and>
         place_order L E c symbol side order_type quantity price tif =
         place_order L E c symbol side order_type quantity None tif"
proof -
  have nl: "str_upper L order_type \<noteq> ''LIMIT''" using assms(1) by simp
  obtain res sent where g: "get_symbol_info L E c symbol = (res, sent)" by (cases "get_symbol_info L E c symbol")
  have s: "sent = [exchange_info_request c]"
    using get_symbol_info_sent[of L E c symbol] g by simp
  have vg: "verb (exchange_info_request c) = GET" by (simp add: exchange_info_request_def)
  show ?thesis
  proof (cases res)
    case (Inl e)
    then have "snd (place_order L E c symbol side order_type quantity price tif) = sent"
      using g by (simp add: place_order_def)
    with assms(2,3) s vg show ?thesis by simp
  next
    case (Inr info)
    show ?thesis
    proof (cases "prepare_order L E c info symbol side order_type quantity price tif")
      case (Inl e)
      then have "snd (place_order L E c symbol side order_type quantity price tif) = sent"
        using g Inr by (simp add: place_order_def)
      with assms(2,3) s vg show ?thesis by simp
    next
      case ps: (Inr ps)
      from prepare_order_market[OF nl ps]
      have n: "prepare_order L E c info symbol side order_type quantity None tif = Inr ps"
        and k: "map_of ps ''price'' = None" "map_of ps ''timeInForce'' = None" by simp_all
      have "snd (place_order L E c symbol side order_type quantity price tif)
              = sent @ [order_request c ps]"
        using g Inr ps by (simp add: place_order_def do_request_post)
      with assms(2,3) s vg have "r = order_request c ps" by auto
      then have "query r = Some ps" by (simp add: order_request_def)
      moreover have "place_order L E c symbol side order_type quantity price tif =
         place_order L E c symbol side order_type quantity None tif"
        using g Inr ps n by (simp add: place_order_def)
      ultimately show ?thesis using k by simp
    qed
  qed
qed

text \<open>
  Witness of C10: a MARKET order of 2.75 with a price of 10.25 on the example exchange.
\<close>

theorem market_order_ignores_price_witness:
  "str_upper demo_lib ''market'' = ''MARKET'' \<and>
   snd (place_order demo_lib (demo_env full_rules) demo_client ''btcusdt'' ''buy'' ''market''
          (Fin (11 / 4)) (Some (Fin (41 / 4))) ''GTC'')
   = [exchange_info_request demo_client,
      order_request demo_client
        (add_signature demo_lib demo_client
          [(''symbol'', PStr ''BTCUSDT''), (''side'', PStr ''BUY''), (''type'', PStr ''MARKET''),
           (''quantity'', PStr ''2.5''), (''timestamp'', PInt 1700000000000),
           (''recvWindow'', PInt 5000)])] \<and>
   place_order demo_lib (demo_env full_rules) demo_client ''btcusdt'' ''buy'' ''market''
          (Fin (11 / 4)) (Some (Fin (41 / 4))) ''GTC''
   = place_order demo_lib (demo_env full_rules) demo_client ''btcusdt'' ''buy'' ''market''
          (Fin (11 / 4)) None ''GTC''"
proof -
  let ?ps = "[(''symbol'', PStr ''BTCUSDT''), (''side'', PStr ''BUY''), (''type'', PStr ''MARKET''),
           (''quantity'', PStr ''2.5''), (''timestamp'', PInt 1700000000000),
           (''recvWindow'', PInt 5000)]"
  let ?r = "order_request demo_client (add_signature demo_lib demo_client ?ps)"
  have rp: "round_price (Some (Fin (41 / 4))) (Fin (1 / 4)) = Inr (Some (Fin (41 / 4)))"
    by (simp add: round_price_def and_then_def demo_price_high)
  have s: "snd (place_order demo_lib (demo_env full_rules) demo_client ''btcusdt'' ''buy'' ''market''
          (Fin (11 / 4)) (Some (Fin (41 / 4))) ''GTC'') = [exchange_info_request demo_client, ?r]"
    unfolding place_order_reached[OF demo_symbol_info demo_rules _ _ demo_quantity rp,
        unfolded float_falsy_def, simplified]
    by (simp add: check_notional_def upper_market demo_market_params)
  have m: "?r \<in> set (snd (place_order demo_lib (demo_env full_rules) demo_client ''btcusdt'' ''buy''
          ''market'' (Fin (11 / 4)) (Some (Fin (41 / 4))) ''GTC''))"
    unfolding s by simp
  have v: "verb ?r = POST" by (simp add: order_request_def)
  from market_order_ignores_price[OF upper_market m v] s show ?thesis
    by (simp add: upper_market)
qed

end
